theory Spec2Isabelle
  imports Complex_Main
begin

section \<open>Data model of the particle tracking module\<close>

text \<open>
  The module \<open>particles_v1.py\<close> keeps all of its data as attributes of the host object
  \<open>self\<close> and reads its configuration from \<open>params\<close>. Floating-point tensors are modelled
  over the reals: rounding, infinities and NaN are outside the model, and so is a grid
  spacing \<open>dx\<close> of zero, whose quotients are infinite as floats. A two-dimensional
  field is indexed by row \<open>j\<close> (the y direction) and column \<open>i\<close> (the x direction); all fields
  of the host share one shape \<open>(ny, nx)\<close>, which the state records once. The attributes
  \<open>x\<close>, \<open>y\<close>, \<open>X\<close>, \<open>Y\<close> and \<open>t\<close> of the source carry longer names here, since a one-letter
  record field would capture the variables of every later statement. The wall-clock
  bookkeeping \<open>tcomp_particles\<close> and the logger are left out.
\<close>

type_synonym grid = "nat \<Rightarrow> nat \<Rightarrow> real"
type_synonym mask = "nat \<Rightarrow> nat \<Rightarrow> bool"

datatype error = ZeroDivisionError | ValueError | IndexError | InvalidArgumentError

datatype device = CPU | GPU

record params =
  tracking_method :: string
  frequency_seeding :: real
  density_seeding :: real

record state =
  ny :: nat
  nx :: nat
  t_now :: real
  dt :: real
  dx :: real
  x_axis :: "real list"
  y_axis :: "real list"
  X_mesh :: grid
  Y_mesh :: grid
  thk :: grid
  topg :: grid
  usurf :: grid
  smb :: grid
  uvelbase :: grid
  vvelbase :: grid
  uvelsurf :: grid
  vvelsurf :: grid
  ubar :: grid
  vbar :: grid
  tlast_seeding :: "real option"
  gridseed :: mask
  xpos :: "real list"
  ypos :: "real list"
  zpos :: "real list"
  rhpos :: "real list"
  wpos :: "real list"
  tpos :: "real list"
  englt :: "real list"
  nxpos :: "real list"
  nypos :: "real list"
  nzpos :: "real list"
  nrhpos :: "real list"
  nwpos :: "real list"
  ntpos :: "real list"
  nenglt :: "real list"
  divflux :: grid
  wvelbase :: grid
  wvelsurf :: grid
  weight_particles :: grid

text \<open>
  The routines the module calls but does not define are parameters of the model: the
  bilinear sampler of \<open>tensorflow_addons\<close> (one value per query point \<open>(j, i)\<close>), the host's
  \<open>compute_gradient_tf\<close> and \<open>compute_divflux\<close> from \<open>igm.modules.utils\<close>, and the device
  the scatter-add kernel runs on. They are taken as total functions: an error raised
  inside one of them, such as the sampler's on a grid with fewer than two rows or
  columns, is not modelled.
\<close>

record externals =
  interpolate_bilinear :: "nat \<Rightarrow> nat \<Rightarrow> grid \<Rightarrow> real \<times> real \<Rightarrow> real"
  compute_gradient_tf :: "nat \<Rightarrow> nat \<Rightarrow> grid \<Rightarrow> real \<Rightarrow> real \<Rightarrow> grid \<times> grid"
  compute_divflux :: "nat \<Rightarrow> nat \<Rightarrow> grid \<Rightarrow> grid \<Rightarrow> grid \<Rightarrow> real \<Rightarrow> real \<Rightarrow> grid"
  scatter_device :: device

section \<open>Initialisation\<close>

text \<open>Python's \<open>int(r)\<close> on a float: truncation toward zero.\<close>

definition py_int :: "real \<Rightarrow> int" where
  "py_int r = (if 0 \<le> r then \<lfloor>r\<rfloor> else \<lceil>r\<rceil>)"

text \<open>
  The indices a Python slice \<open>[::step]\<close> selects on an axis of length \<open>n\<close>, for a non-zero
  step: \<open>0, step, 2 step, ...\<close> for a positive step, and \<open>n - 1, n - 1 + step, ...\<close> for a
  negative one.
\<close>

definition slice_indices :: "nat \<Rightarrow> int \<Rightarrow> nat list" where
  "slice_indices n step =
     (if 0 < step
      then map (\<lambda>k. k * nat step) [0..<(n + nat step - 1) div nat step]
      else map (\<lambda>k. n - 1 - k * nat (- step)) [0..<(n + nat (- step) - 1) div nat (- step)])"

text \<open>\<open>rr = int(1.0 / params.density_seeding)\<close>, line 60.\<close>

definition seed_stride :: "params \<Rightarrow> int" where
  "seed_stride P = py_int (1 / density_seeding P)"

text \<open>
  \<open>init_particles_v1\<close>, lines 45 to 61. The float division raises on a zero density and the
  slice assignment raises on a zero step; nothing else is checked.
\<close>

definition init_particles_v1 :: "params \<Rightarrow> state \<Rightarrow> error + state" where
  "init_particles_v1 P S =
     (if density_seeding P = 0 then Inl ZeroDivisionError
      else let rr = seed_stride P in
        if rr = 0 then Inl ValueError
        else Inr (S\<lparr>tlast_seeding := None,
                    xpos := [], ypos := [], zpos := [], rhpos := [],
                    wpos := [], tpos := [], englt := [],
                    gridseed := (\<lambda>j i. j \<in> set (slice_indices (ny S) rr)
                                      \<and> i \<in> set (slice_indices (nx S) rr))\<rparr>))"

section \<open>Seeding\<close>

text \<open>
  Boolean-mask indexing \<open>F[I]\<close> of a two-dimensional array by a mask of the same shape:
  the entries of \<open>F\<close> at the true cells of \<open>I\<close>, in row-major order.
\<close>

definition ravel :: "nat \<Rightarrow> nat \<Rightarrow> (nat \<Rightarrow> nat \<Rightarrow> 'a) \<Rightarrow> 'a list" where
  "ravel m n F = concat (map (\<lambda>j. map (F j) [0..<n]) [0..<m])"

definition boolean_mask :: "nat \<Rightarrow> nat \<Rightarrow> grid \<Rightarrow> mask \<Rightarrow> real list" where
  "boolean_mask m n F I = map fst (filter snd (zip (ravel m n F) (ravel m n I)))"

text \<open>\<open>I = (self.thk > 10) & (self.smb > -2) & self.gridseed\<close>, lines 268 to 270.\<close>

definition seed_mask :: "state \<Rightarrow> mask" where
  "seed_mask S = (\<lambda>j i. 10 < thk S j i \<and> - 2 < smb S j i \<and> gridseed S j i)"

text \<open>\<open>seeding_particles\<close>, lines 242 to 277: the batch is left in the \<open>n...\<close> attributes.\<close>

definition seeding_particles :: "params \<Rightarrow> state \<Rightarrow> state" where
  "seeding_particles P S =
     (let I = seed_mask S;
          XI = boolean_mask (ny S) (nx S) (X_mesh S) I
      in S\<lparr>nxpos := XI,
           nypos := boolean_mask (ny S) (nx S) (Y_mesh S) I,
           nzpos := boolean_mask (ny S) (nx S) (usurf S) I,
           nrhpos := map (\<lambda>_. 1) XI,
           nwpos := map (\<lambda>_. 1) XI,
           ntpos := map (\<lambda>one. one * t_now S) (map (\<lambda>_. 1) XI),
           nenglt := map (\<lambda>_. 0) XI\<rparr>)"

text \<open>
  The test of line 70. \<open>tlast_seeding\<close> starts at \<open>-1.0e5000\<close>, which is minus infinity
  as a float: \<open>None\<close> stands for it, and the difference to any time is then plus infinity.
\<close>

definition seeding_due :: "params \<Rightarrow> state \<Rightarrow> bool" where
  "seeding_due P S =
     (case tlast_seeding S of
        None \<Rightarrow> True
      | Some last_t \<Rightarrow> frequency_seeding P \<le> t_now S - last_t)"

text \<open>Lines 74 to 80: the batch is concatenated behind the stored particles.\<close>

definition merge_seeds :: "state \<Rightarrow> state" where
  "merge_seeds S =
     S\<lparr>xpos := xpos S @ nxpos S,
       ypos := ypos S @ nypos S,
       zpos := zpos S @ nzpos S,
       rhpos := rhpos S @ nrhpos S,
       wpos := wpos S @ nwpos S,
       tpos := tpos S @ ntpos S,
       englt := englt S @ nenglt S\<rparr>"

text \<open>Lines 70 to 82.\<close>

definition seeding_stage :: "params \<Rightarrow> state \<Rightarrow> state" where
  "seeding_stage P S =
     (if seeding_due P S
      then (merge_seeds (seeding_particles P S))\<lparr>tlast_seeding := Some (t_now S)\<rparr>
      else S)"

section \<open>Advection\<close>

text \<open>
  Element-wise operations on the particle arrays are maps over zipped lists. The seven
  particle arrays are index-aligned (\<open>aligned\<close> below); TensorFlow refuses arrays of
  different lengths, which no run of the module produces.
\<close>

definition map3 :: "('a \<Rightarrow> 'b \<Rightarrow> 'c \<Rightarrow> 'd) \<Rightarrow> 'a list \<Rightarrow> 'b list \<Rightarrow> 'c list \<Rightarrow> 'd list" where
  "map3 f as bs cs = map (\<lambda>(a, b, c). f a b c) (zip as (zip bs cs))"

definition aligned :: "state \<Rightarrow> bool" where
  "aligned S \<longleftrightarrow>
     length (ypos S) = length (xpos S) \<and> length (zpos S) = length (xpos S) \<and>
     length (rhpos S) = length (xpos S) \<and> length (wpos S) = length (xpos S) \<and>
     length (tpos S) = length (xpos S) \<and> length (englt S) = length (xpos S)"

text \<open>\<open>tf.clip_by_value(t, lo, hi)\<close> is \<open>maximum(minimum(t, hi), lo)\<close>.\<close>

definition clip_by_value :: "real \<Rightarrow> real \<Rightarrow> real \<Rightarrow> real" where
  "clip_by_value v lo hi = max (min v hi) lo"

text \<open>
  Lines 88 to 94: the fractional grid indices \<open>(j, i)\<close> of every particle. \<open>self.x[0]\<close>
  and \<open>self.y[0]\<close> are read by the caller below, which raises on an empty axis.
\<close>

definition particle_indices :: "state \<Rightarrow> (real \<times> real) list" where
  "particle_indices S =
     (let i = map (\<lambda>xp. (xp - hd (x_axis S)) / dx S) (xpos S);
          j = map (\<lambda>yp. (yp - hd (y_axis S)) / dx S) (ypos S)
      in zip j i)"

text \<open>Lines 96 to 136: seven fields sampled at the particles.\<close>

record samples =
  s_uvelbase :: "real list"
  s_vvelbase :: "real list"
  s_uvelsurf :: "real list"
  s_vvelsurf :: "real list"
  s_othk :: "real list"
  s_topg :: "real list"
  s_smb :: "real list"

definition sample :: "externals \<Rightarrow> state \<Rightarrow> grid \<Rightarrow> (real \<times> real) list \<Rightarrow> real list" where
  "sample E S F indices = map (interpolate_bilinear E (ny S) (nx S) F) indices"

definition sample_fields :: "externals \<Rightarrow> state \<Rightarrow> (real \<times> real) list \<Rightarrow> samples" where
  "sample_fields E S indices =
     \<lparr>s_uvelbase = sample E S (uvelbase S) indices,
      s_vvelbase = sample E S (vvelbase S) indices,
      s_uvelsurf = sample E S (uvelsurf S) indices,
      s_vvelsurf = sample E S (vvelsurf S) indices,
      s_othk = sample E S (thk S) indices,
      s_topg = sample E S (topg S) indices,
      s_smb = sample E S (smb S) indices\<rparr>"

text \<open>The quartic blend \<open>base + (surf - base) * (1 - (1 - rhpos) ** 4)\<close>.\<close>

definition sia_blend :: "real \<Rightarrow> real \<Rightarrow> real \<Rightarrow> real" where
  "sia_blend vbase vsurf rh = vbase + (vsurf - vbase) * (1 - (1 - rh) ^ 4)"

text \<open>Lines 139 to 156, the branch \<open>tracking_method == "simple"\<close>.\<close>

definition advect_simple :: "samples \<Rightarrow> state \<Rightarrow> state" where
  "advect_simple Q S =
     (let nthk = map2 (\<lambda>ot sm. ot + sm * dt S) (s_othk Q) (s_smb Q);
          rh = map3 (\<lambda>nt r ot. if 0.1 < nt then clip_by_value (r * ot / nt) 0 1 else 1)
                 nthk (rhpos S) (s_othk Q);
          uvel = map3 sia_blend (s_uvelbase Q) (s_uvelsurf Q) rh;
          vvel = map3 sia_blend (s_vvelbase Q) (s_vvelsurf Q) rh
      in S\<lparr>rhpos := rh,
           xpos := map2 (\<lambda>xp u. xp + dt S * u) (xpos S) uvel,
           ypos := map2 (\<lambda>yp v. yp + dt S * v) (ypos S) vvel,
           zpos := map3 (\<lambda>tg nt r. tg + nt * r) (s_topg Q) nthk rh\<rparr>)"

text \<open>
  Lines 164 to 213, the branch \<open>tracking_method == "3d"\<close>. \<open>self.x[-1]\<close> and \<open>self.y[-1]\<close>
  are the last entries of the axes.
\<close>

definition advect_3d :: "externals \<Rightarrow> samples \<Rightarrow> (real \<times> real) list \<Rightarrow> state \<Rightarrow> state" where
  "advect_3d E Q indices S =
     (let (slopsurfx, slopsurfy) = compute_gradient_tf E (ny S) (nx S) (usurf S) (dx S) (dx S);
          (sloptopgx, sloptopgy) = compute_gradient_tf E (ny S) (nx S) (topg S) (dx S) (dx S);
          dvf = compute_divflux E (ny S) (nx S) (ubar S) (vbar S) (thk S) (dx S) (dx S);
          wb = (\<lambda>j i. uvelbase S j i * sloptopgx j i + vvelbase S j i * sloptopgy j i);
          ws = (\<lambda>j i. uvelsurf S j i * slopsurfx j i + vvelsurf S j i * slopsurfy j i
                       - dvf j i);
          s_wvelbase = sample E S wb indices;
          s_wvelsurf = sample E S ws indices;
          zc = map3 (\<lambda>z tg ot. clip_by_value z tg (tg + ot)) (zpos S) (s_topg Q) (s_othk Q);
          rh = map3 (\<lambda>ot z tg. if 0.1 < ot then (z - tg) / ot else 1) (s_othk Q) zc (s_topg Q);
          uvel = map3 sia_blend (s_uvelbase Q) (s_uvelsurf Q) rh;
          vvel = map3 sia_blend (s_vvelbase Q) (s_vvelsurf Q) rh;
          wvel = map3 sia_blend s_wvelbase s_wvelsurf rh;
          xe = map2 (\<lambda>xp u. xp + dt S * u) (xpos S) uvel;
          ye = map2 (\<lambda>yp v. yp + dt S * v) (ypos S) vvel;
          ze = map2 (\<lambda>zp w. zp + dt S * w) zc wvel
      in S\<lparr>divflux := dvf, wvelbase := wb, wvelsurf := ws,
           rhpos := rh,
           zpos := ze,
           xpos := map (\<lambda>v. clip_by_value v (hd (x_axis S)) (last (x_axis S))) xe,
           ypos := map (\<lambda>v. clip_by_value v (hd (y_axis S)) (last (y_axis S))) ye\<rparr>)"

text \<open>Lines 138 to 213: the \<open>if\<close>/\<open>elif\<close> on the tracking method; there is no \<open>else\<close>.\<close>

definition advect :: "externals \<Rightarrow> params \<Rightarrow> samples \<Rightarrow> (real \<times> real) list \<Rightarrow> state \<Rightarrow> state" where
  "advect E P Q indices S =
     (if tracking_method P = ''simple'' then advect_simple Q S
      else if tracking_method P = ''3d'' then advect_3d E Q indices S
      else S)"

section \<open>Weight accumulation and englacial time\<close>

text \<open>
  \<open>tf.cast(., "int32")\<close> of a float truncates toward zero. Values beyond the 32-bit range
  are not modelled; they are far outside any grid.
\<close>

definition cast_int32 :: "real \<Rightarrow> int" where
  "cast_int32 r = (if 0 \<le> r then \<lfloor>r\<rfloor> else \<lceil>r\<rceil>)"

text \<open>
  \<open>tf.tensor_scatter_nd_add\<close> on a tensor of shape \<open>(m, n)\<close>: every update is added to
  the cell its index names, so that updates of one cell sum up. An index outside the
  tensor is an error on the CPU and is skipped on the GPU, as TensorFlow documents.
\<close>

fun tensor_scatter_nd_add ::
  "device \<Rightarrow> nat \<Rightarrow> nat \<Rightarrow> grid \<Rightarrow> ((int \<times> int) \<times> real) list \<Rightarrow> error + grid" where
  "tensor_scatter_nd_add dev m n w [] = Inr w"
| "tensor_scatter_nd_add dev m n w (((j, i), u) # rest) =
     (if 0 \<le> j \<and> j < int m \<and> 0 \<le> i \<and> i < int n
      then tensor_scatter_nd_add dev m n
             (w(nat j := (w (nat j))(nat i := w (nat j) (nat i) + u))) rest
      else (case dev of
              CPU \<Rightarrow> Inl InvalidArgumentError
            | GPU \<Rightarrow> tensor_scatter_nd_add dev m n w rest))"

text \<open>Lines 215 to 232. The indices are the ones computed at lines 88 and 89.\<close>

definition accumulate :: "externals \<Rightarrow> (real \<times> real) list \<Rightarrow> state \<Rightarrow> error + state" where
  "accumulate E indices S =
     (let cells = map (\<lambda>(j, i). (cast_int32 j, cast_int32 i)) indices;
          updates = map2 (\<lambda>r w. if r = 1 then w else 0) (rhpos S) (wpos S)
      in case tensor_scatter_nd_add (scatter_device E) (ny S) (nx S) (\<lambda>j i. 0)
                (zip cells updates) of
           Inl e \<Rightarrow> Inl e
         | Inr wgt \<Rightarrow>
             Inr (S\<lparr>weight_particles := wgt,
                    englt := map2 (\<lambda>e r. e + (if r < 1 then dt S else 0))
                               (englt S) (rhpos S)\<rparr>))"

section \<open>The update of one time step\<close>

text \<open>\<open>update_particles_v1\<close>, lines 64 to 235.\<close>

definition update_particles_v1 :: "externals \<Rightarrow> params \<Rightarrow> state \<Rightarrow> error + state" where
  "update_particles_v1 E P S =
     (let S1 = seeding_stage P S in
      if x_axis S1 = [] \<or> y_axis S1 = [] then Inl IndexError
      else
        let indices = particle_indices S1;
            Q = sample_fields E S1 indices;
            S2 = advect E P Q indices S1
        in accumulate E indices S2)"

section \<open>Collaborators and a scenario for concrete runs\<close>

text \<open>
  Modelled from the spec: the Field Sampler of section 4.1, which the module takes from
  \<open>tensorflow_addons\<close>: bilinear interpolation at fractional \<open>(row, column)\<close> indices, a
  query outside the grid being clamped to the nearest interpolation cell.
\<close>

definition clamped_bilinear :: "nat \<Rightarrow> nat \<Rightarrow> grid \<Rightarrow> real \<times> real \<Rightarrow> real" where
  "clamped_bilinear m n F =
     (\<lambda>(qj, qi).
        let fj = min (max 0 \<lfloor>qj\<rfloor>) (int m - 2);
            fi = min (max 0 \<lfloor>qi\<rfloor>) (int n - 2);
            aj = min (max 0 (qj - of_int fj)) 1;
            ai = min (max 0 (qi - of_int fi)) 1;
            top = ai * (F (nat fj) (nat fi + 1) - F (nat fj) (nat fi)) + F (nat fj) (nat fi);
            bot = ai * (F (nat fj + 1) (nat fi + 1) - F (nat fj + 1) (nat fi))
                  + F (nat fj + 1) (nat fi)
        in aj * (bot - top) + top)"

text \<open>
  Modelled from the spec: the gradient operator of section 4.2, which lives in
  \<open>igm.modules.utils\<close>: centred differences, one-sided on the border of the grid.
\<close>

definition centred_gradient :: "nat \<Rightarrow> nat \<Rightarrow> grid \<Rightarrow> real \<Rightarrow> real \<Rightarrow> grid \<times> grid" where
  "centred_gradient m n F hx hy =
     ((\<lambda>j i. (F j (min (i + 1) (n - 1)) - F j (i - 1))
               / (real (min (i + 1) (n - 1) - (i - 1)) * hx)),
      (\<lambda>j i. (F (min (j + 1) (m - 1)) i - F (j - 1) i)
               / (real (min (j + 1) (m - 1) - (j - 1)) * hy)))"

text \<open>
  Modelled from the spec: the flux-divergence operator of section 4.2, which lives in
  \<open>igm.modules.utils\<close>: the divergence of the depth-integrated flux \<open>(u h, v h)\<close>.
\<close>

definition centred_divflux ::
  "nat \<Rightarrow> nat \<Rightarrow> grid \<Rightarrow> grid \<Rightarrow> grid \<Rightarrow> real \<Rightarrow> real \<Rightarrow> grid" where
  "centred_divflux m n u v h hx hy =
     (\<lambda>j i. fst (centred_gradient m n (\<lambda>j i. u j i * h j i) hx hy) j i
           + snd (centred_gradient m n (\<lambda>j i. v j i * h j i) hx hy) j i)"

definition host_ops :: "device \<Rightarrow> externals" where
  "host_ops dev =
     \<lparr>interpolate_bilinear = clamped_bilinear,
      compute_gradient_tf = centred_gradient,
      compute_divflux = centred_divflux,
      scatter_device = dev\<rparr>"

text \<open>
  A three by three grid of spacing 100 with an ice slab of thickness 50 whose surface
  rises by one unit per column, surface velocity 100 in x, and two particles in the
  store: one at the surface with weight 2 and one at half depth.
\<close>

definition slab :: state where
  "slab =
     \<lparr>ny = 3, nx = 3, t_now = 20, dt = 1, dx = 100,
      x_axis = [0, 100, 200], y_axis = [0, 100, 200],
      X_mesh = (\<lambda>j i. 100 * real i), Y_mesh = (\<lambda>j i. 100 * real j),
      thk = (\<lambda>j i. 50), topg = (\<lambda>j i. 1000 + real i), usurf = (\<lambda>j i. 1050 + real i),
      smb = (\<lambda>j i. 0),
      uvelbase = (\<lambda>j i. 0), vvelbase = (\<lambda>j i. 0),
      uvelsurf = (\<lambda>j i. 100), vvelsurf = (\<lambda>j i. 0),
      ubar = (\<lambda>j i. 80), vbar = (\<lambda>j i. 0),
      tlast_seeding = Some 15,
      gridseed = (\<lambda>j i. j < 3 \<and> i < 3 \<and> even j \<and> even i),
      xpos = [50, 100], ypos = [50, 50], zpos = [1060, 1026],
      rhpos = [1, 1 / 2], wpos = [2, 1], tpos = [0, 0], englt = [0, 5],
      nxpos = [], nypos = [], nzpos = [], nrhpos = [], nwpos = [], ntpos = [], nenglt = [],
      divflux = (\<lambda>j i. 0), wvelbase = (\<lambda>j i. 0), wvelsurf = (\<lambda>j i. 0),
      weight_particles = (\<lambda>j i. 0)\<rparr>"

text \<open>The same slab with ice too thin to be seeded, and with its first particle west of the grid.\<close>

definition thin_slab :: state where
  "thin_slab = slab\<lparr>thk := (\<lambda>j i. 5)\<rparr>"

definition drifted_slab :: state where
  "drifted_slab = slab\<lparr>xpos := [- 150, 100]\<rparr>"

definition config :: "string \<Rightarrow> real \<Rightarrow> real \<Rightarrow> params" where
  "config method freq dens =
     \<lparr>tracking_method = method, frequency_seeding = freq, density_seeding = dens\<rparr>"

section \<open>Notions used in the statements\<close>

text \<open>The cells of a grid of shape \<open>(m, n)\<close> in row-major order, and the cells the seeder picks.\<close>

definition grid_cells :: "nat \<Rightarrow> nat \<Rightarrow> (nat \<times> nat) list" where
  "grid_cells m n = concat (map (\<lambda>j. map (Pair j) [0..<n]) [0..<m])"

definition seed_cells :: "state \<Rightarrow> (nat \<times> nat) list" where
  "seed_cells S = filter (\<lambda>(j, i). seed_mask S j i) (grid_cells (ny S) (nx S))"

text \<open>
  The cell \<open>(row, column)\<close> that encloses a horizontal position, by the truncation of lines
  88, 89, 217 and 218, and whether a cell lies on the grid.
\<close>

definition cell_of :: "state \<Rightarrow> real \<Rightarrow> real \<Rightarrow> int \<times> int" where
  "cell_of S xp yp =
     (cast_int32 ((yp - hd (y_axis S)) / dx S), cast_int32 ((xp - hd (x_axis S)) / dx S))"

definition in_grid :: "state \<Rightarrow> int \<times> int \<Rightarrow> bool" where
  "in_grid S c \<longleftrightarrow> 0 \<le> fst c \<and> fst c < int (ny S) \<and> 0 \<le> snd c \<and> snd c < int (nx S)"

text \<open>The sum of a field over all cells of the grid.\<close>

definition grid_total :: "nat \<Rightarrow> nat \<Rightarrow> grid \<Rightarrow> real" where
  "grid_total m n w = sum_list (ravel m n w)"

text \<open>
  The state a call has reached after its integrator stage (line 213), and the value the
  sampler returns for a field at the \<open>k\<close>-th particle of a store.
\<close>

definition integrated :: "externals \<Rightarrow> params \<Rightarrow> state \<Rightarrow> state" where
  "integrated E P S =
     (let S1 = seeding_stage P S;
          indices = particle_indices S1
      in advect E P (sample_fields E S1 indices) indices S1)"

definition sampled_at :: "externals \<Rightarrow> state \<Rightarrow> grid \<Rightarrow> nat \<Rightarrow> real" where
  "sampled_at E S F k = interpolate_bilinear E (ny S) (nx S) F (particle_indices S ! k)"

text \<open>The integer cells a call hands to the scatter-add (lines 215 to 221).\<close>

definition deposit_cells :: "params \<Rightarrow> state \<Rightarrow> (int \<times> int) list" where
  "deposit_cells P S =
     map (\<lambda>(j, i). (cast_int32 j, cast_int32 i)) (particle_indices (seeding_stage P S))"

section \<open>The seed grid\<close>

lemma set_slice_indices_pos:
  assumes "0 < s"
  shows "k \<in> set (slice_indices n s) \<longleftrightarrow> k < n \<and> nat s dvd k"
proof -
  define d where "d = nat s"
  have d: "0 < d" using assms by (simp add: d_def)
  have bound: "q < (n + d - 1) div d \<longleftrightarrow> q * d < n" for q
  proof -
    have "q < (n + d - 1) div d \<longleftrightarrow> Suc q \<le> (n + d - 1) div d" by auto
    also have "\<dots> \<longleftrightarrow> Suc q * d \<le> n + d - 1"
      using d by (simp only: less_eq_div_iff_mult_less_eq)
    also have "\<dots> \<longleftrightarrow> q * d < n" using d by auto
    finally show ?thesis .
  qed
  have "k \<in> set (slice_indices n s) \<longleftrightarrow> (\<exists>q. q < (n + d - 1) div d \<and> k = q * d)"
    using assms by (auto simp: slice_indices_def d_def)
  also have "\<dots> \<longleftrightarrow> (\<exists>q. q * d < n \<and> k = q * d)"
    by (simp only: bound)
  also have "\<dots> \<longleftrightarrow> k < n \<and> d dvd k"
    by (auto simp: dvd_def mult.commute)
  finally show ?thesis by (simp add: d_def)
qed

lemma py_int_ge_one: "1 \<le> r \<Longrightarrow> py_int r = \<lfloor>r\<rfloor> \<and> 1 \<le> py_int r"
  by (simp add: py_int_def)

lemma py_int_zero_iff: "py_int r = 0 \<longleftrightarrow> \<bar>r\<bar> < 1"
  by (auto simp: py_int_def floor_eq_iff ceiling_eq_iff)

lemma seed_stride_zero_iff:
  assumes "density_seeding P \<noteq> 0"
  shows "seed_stride P = 0 \<longleftrightarrow> 1 < \<bar>density_seeding P\<bar>"
proof -
  have "\<bar>1 / density_seeding P\<bar> < 1 \<longleftrightarrow> 1 < \<bar>density_seeding P\<bar>"
    using assms by (simp add: field_simps)
  then show ?thesis by (simp add: seed_stride_def py_int_zero_iff)
qed

text \<open>
  C7 (as amended). For every \<open>density_seeding\<close> in \<open>(0, 1]\<close> the stride \<open>rr\<close> is
  \<open>1 / density_seeding\<close> rounded down (the truncation of \<open>int\<close>), it is at least 1,
  initialisation succeeds, and \<open>gridseed\<close> is true exactly at the grid points whose row
  and column indices are both multiples of \<open>rr\<close>.
\<close>

theorem init_gridseed_stride:
  assumes "0 < density_seeding P" and "density_seeding P \<le> 1"
  shows "seed_stride P = \<lfloor>1 / density_seeding P\<rfloor> \<and> 1 \<le> seed_stride P \<and>
         (\<exists>S'. init_particles_v1 P S = Inr S' \<and>
               (\<forall>j i. gridseed S' j i \<longleftrightarrow>
                        j < ny S \<and> i < nx S \<and>
                        seed_stride P dvd int j \<and> seed_stride P dvd int i))"
proof -
  have "1 \<le> 1 / density_seeding P" using assms by simp
  then have rr: "seed_stride P = \<lfloor>1 / density_seeding P\<rfloor>" "1 \<le> seed_stride P"
    using py_int_ge_one [of "1 / density_seeding P"] by (simp_all add: seed_stride_def)
  have dvd: "nat (seed_stride P) dvd k \<longleftrightarrow> seed_stride P dvd int k" for k
    using rr(2) by (simp add: nat_dvd_iff)
  have pos: "0 < seed_stride P" using rr(2) by simp
  define S' where
    "S' = S\<lparr>tlast_seeding := None,
            xpos := [], ypos := [], zpos := [], rhpos := [],
            wpos := [], tpos := [], englt := [],
            gridseed := (\<lambda>j i. j \<in> set (slice_indices (ny S) (seed_stride P))
                              \<and> i \<in> set (slice_indices (nx S) (seed_stride P)))\<rparr>"
  have ret: "init_particles_v1 P S = Inr S'"
    using assms pos by (simp add: init_particles_v1_def Let_def S'_def)
  have "gridseed S' j i \<longleftrightarrow>
          j < ny S \<and> i < nx S \<and> seed_stride P dvd int j \<and> seed_stride P dvd int i" for j i
    by (auto simp: S'_def set_slice_indices_pos [OF pos] dvd)
  with ret rr show ?thesis by blast
qed

theorem init_gridseed_stride_witness:
  "0 < density_seeding (config ''3d'' 10 (1 / 5)) \<and>
   density_seeding (config ''3d'' 10 (1 / 5)) \<le> 1 \<and>
   seed_stride (config ''3d'' 10 (1 / 5)) = 5 \<and>
   (\<exists>S'. init_particles_v1 (config ''3d'' 10 (1 / 5)) slab = Inr S' \<and>
         (\<forall>j i. gridseed S' j i \<longleftrightarrow>
                  j < ny slab \<and> i < nx slab \<and>
                  seed_stride (config ''3d'' 10 (1 / 5)) dvd int j \<and>
                  seed_stride (config ''3d'' 10 (1 / 5)) dvd int i))"
proof -
  have d: "density_seeding (config ''3d'' 10 (1 / 5)) = 1 / 5"
    by (simp add: config_def)
  have h1: "0 < density_seeding (config ''3d'' 10 (1 / 5))"
    and h2: "density_seeding (config ''3d'' 10 (1 / 5)) \<le> 1"
    by (simp_all add: d)
  have s5: "seed_stride (config ''3d'' 10 (1 / 5)) = 5"
    by (simp add: seed_stride_def py_int_def d)
  show ?thesis
    using h1 h2 s5 init_gridseed_stride [OF h1 h2, of slab] by blast
qed

text \<open>
  The claim as written, with \<open>round\<close>, fails at \<open>density_seeding = 0.6\<close>: the code's stride
  is \<open>int(1.666...) = 1\<close>, the nearest integer is 2, and the grid point \<open>(1, 1)\<close> is
  seeded although 2 does not divide 1.
\<close>

theorem init_stride_round_counterexample:
  "0 < density_seeding (config ''3d'' 10 (3 / 5)) \<and>
   density_seeding (config ''3d'' 10 (3 / 5)) \<le> 1 \<and>
   seed_stride (config ''3d'' 10 (3 / 5)) = 1 \<and>
   round (1 / density_seeding (config ''3d'' 10 (3 / 5))) = 2 \<and>
   seed_stride (config ''3d'' 10 (3 / 5)) \<noteq> round (1 / density_seeding (config ''3d'' 10 (3 / 5))) \<and>
   gridseed (projr (init_particles_v1 (config ''3d'' 10 (3 / 5)) slab)) 1 1"
  by (simp add: config_def seed_stride_def py_int_def round_def init_particles_v1_def
        slice_indices_def slab_def)

section \<open>Configuration errors\<close>

text \<open>
  C8 (as amended). Initialisation validates nothing. It never reads
  \<open>frequency_seeding\<close>, so any value is accepted. It fails in exactly two cases, neither a
  configuration error: with \<open>ZeroDivisionError\<close> when \<open>density_seeding\<close> is 0, and
  with \<open>ValueError\<close> (a zero slice step) when the absolute value of \<open>density_seeding\<close>
  exceeds 1. In particular it succeeds for every \<open>density_seeding\<close> in \<open>(0, 1]\<close>, and also
  for every one in \<open>[-1, 0)\<close>.
\<close>

theorem init_failure_cases:
  "(init_particles_v1 P S = Inl ZeroDivisionError \<longleftrightarrow> density_seeding P = 0) \<and>
   (init_particles_v1 P S = Inl ValueError \<longleftrightarrow>
      density_seeding P \<noteq> 0 \<and> 1 < \<bar>density_seeding P\<bar>) \<and>
   (isl (init_particles_v1 P S) \<longleftrightarrow> density_seeding P = 0 \<or> 1 < \<bar>density_seeding P\<bar>) \<and>
   init_particles_v1 (P\<lparr>frequency_seeding := f\<rparr>) S = init_particles_v1 P S"
proof -
  have same: "seed_stride (P\<lparr>frequency_seeding := f\<rparr>) = seed_stride P"
    by (simp add: seed_stride_def)
  show ?thesis
  proof (cases "density_seeding P = 0")
    case True
    then show ?thesis by (simp add: init_particles_v1_def)
  next
    case False
    then show ?thesis
      using seed_stride_zero_iff [OF False]
      by (simp add: init_particles_v1_def Let_def same)
  qed
qed

theorem init_failure_cases_witness:
  "\<not> isl (init_particles_v1 (config ''3d'' 10 (1 / 5)) slab) \<and>
   init_particles_v1 (config ''3d'' 10 2) slab = Inl ValueError \<and>
   init_particles_v1 (config ''3d'' 10 0) slab = Inl ZeroDivisionError"
  using init_failure_cases [of "config ''3d'' 10 (1 / 5)" slab 10]
        init_failure_cases [of "config ''3d'' 10 2" slab 10]
        init_failure_cases [of "config ''3d'' 10 0" slab 10]
  by (simp add: config_def)

text \<open>
  The claim as written fails: a non-positive \<open>frequency_seeding\<close> and a negative
  \<open>density_seeding\<close> both pass initialisation without any error.
\<close>

theorem init_validation_counterexample:
  "frequency_seeding (config ''3d'' (- 1) (1 / 5)) \<le> 0 \<and>
   \<not> isl (init_particles_v1 (config ''3d'' (- 1) (1 / 5)) slab) \<and>
   density_seeding (config ''3d'' 10 (- 1 / 2)) < 0 \<and>
   \<not> isl (init_particles_v1 (config ''3d'' 10 (- 1 / 2)) slab)"
  by (simp add: config_def seed_stride_def py_int_def init_particles_v1_def)

section \<open>Element-wise operations\<close>

lemma length_map3 [simp]:
  "length (map3 f as bs cs) = min (length as) (min (length bs) (length cs))"
  by (simp add: map3_def)

lemma nth_map3:
  "k < length as \<Longrightarrow> k < length bs \<Longrightarrow> k < length cs \<Longrightarrow>
   map3 f as bs cs ! k = f (as ! k) (bs ! k) (cs ! k)"
  by (simp add: map3_def)

lemma nth_map2:
  "k < length as \<Longrightarrow> k < length bs \<Longrightarrow> map2 f as bs ! k = f (as ! k) (bs ! k)"
  by simp

section \<open>Seeding\<close>

lemma ravel_grid_cells: "ravel m n F = map (\<lambda>(j, i). F j i) (grid_cells m n)"
  by (simp add: ravel_def grid_cells_def map_concat comp_def)

lemma boolean_mask_cells:
  "boolean_mask m n F I = map (\<lambda>(j, i). F j i) (filter (\<lambda>(j, i). I j i) (grid_cells m n))"
proof -
  have "zip (ravel m n F) (ravel m n I) = map (\<lambda>(j, i). (F j i, I j i)) (grid_cells m n)"
    by (simp add: ravel_grid_cells zip_map_map zip_same_conv_map case_prod_unfold)
  then show ?thesis
    by (simp add: boolean_mask_def filter_map comp_def case_prod_unfold)
qed

lemma set_grid_cells: "set (grid_cells m n) = {(j, i). j < m \<and> i < n}"
  by (auto simp: grid_cells_def)

lemma distinct_grid_cells: "distinct (grid_cells m n)"
proof -
  have "grid_cells m n = List.product [0..<m] [0..<n]"
    by (simp add: grid_cells_def product_concat_map)
  then show ?thesis by (simp add: distinct_product)
qed

lemma length_seed_cells:
  "length (seed_cells S) =
     card {(j, i). j < ny S \<and> i < nx S \<and> 10 < thk S j i \<and> - 2 < smb S j i \<and> gridseed S j i}"
proof -
  have "length (seed_cells S) =
          card ({c. case c of (j, i) \<Rightarrow> seed_mask S j i} \<inter> set (grid_cells (ny S) (nx S)))"
    unfolding seed_cells_def by (rule distinct_length_filter [OF distinct_grid_cells])
  also have "{c. case c of (j, i) \<Rightarrow> seed_mask S j i} \<inter> set (grid_cells (ny S) (nx S)) =
          {(j, i). j < ny S \<and> i < nx S \<and> 10 < thk S j i \<and> - 2 < smb S j i \<and> gridseed S j i}"
    by (auto simp: set_grid_cells seed_mask_def)
  finally show ?thesis .
qed

lemma seeding_particles_batch:
  "nxpos (seeding_particles P S) = map (\<lambda>(j, i). X_mesh S j i) (seed_cells S)"
  "nypos (seeding_particles P S) = map (\<lambda>(j, i). Y_mesh S j i) (seed_cells S)"
  "nzpos (seeding_particles P S) = map (\<lambda>(j, i). usurf S j i) (seed_cells S)"
  "nrhpos (seeding_particles P S) = replicate (length (seed_cells S)) 1"
  "nwpos (seeding_particles P S) = replicate (length (seed_cells S)) 1"
  "ntpos (seeding_particles P S) = replicate (length (seed_cells S)) (t_now S)"
  "nenglt (seeding_particles P S) = replicate (length (seed_cells S)) 0"
  by (simp_all add: seeding_particles_def Let_def boolean_mask_cells seed_cells_def
        map_replicate_const comp_def)

lemma seeding_particles_store:
  "xpos (seeding_particles P S) = xpos S" "ypos (seeding_particles P S) = ypos S"
  "zpos (seeding_particles P S) = zpos S" "rhpos (seeding_particles P S) = rhpos S"
  "wpos (seeding_particles P S) = wpos S" "tpos (seeding_particles P S) = tpos S"
  "englt (seeding_particles P S) = englt S"
  by (simp_all add: seeding_particles_def Let_def)

lemma seeding_stage_due:
  assumes "seeding_due P S"
  shows "xpos (seeding_stage P S) = xpos S @ map (\<lambda>(j, i). X_mesh S j i) (seed_cells S)"
    and "ypos (seeding_stage P S) = ypos S @ map (\<lambda>(j, i). Y_mesh S j i) (seed_cells S)"
    and "zpos (seeding_stage P S) = zpos S @ map (\<lambda>(j, i). usurf S j i) (seed_cells S)"
    and "rhpos (seeding_stage P S) = rhpos S @ replicate (length (seed_cells S)) 1"
    and "wpos (seeding_stage P S) = wpos S @ replicate (length (seed_cells S)) 1"
    and "tpos (seeding_stage P S) = tpos S @ replicate (length (seed_cells S)) (t_now S)"
    and "englt (seeding_stage P S) = englt S @ replicate (length (seed_cells S)) 0"
    and "tlast_seeding (seeding_stage P S) = Some (t_now S)"
  using assms
  by (simp_all add: seeding_stage_def merge_seeds_def seeding_particles_batch
        seeding_particles_store)

lemma seeding_stage_not_due: "\<not> seeding_due P S \<Longrightarrow> seeding_stage P S = S"
  by (simp add: seeding_stage_def)

lemma seeding_stage_host:
  "ny (seeding_stage P S) = ny S" "nx (seeding_stage P S) = nx S"
  "dt (seeding_stage P S) = dt S" "dx (seeding_stage P S) = dx S"
  "x_axis (seeding_stage P S) = x_axis S" "y_axis (seeding_stage P S) = y_axis S"
  "topg (seeding_stage P S) = topg S" "thk (seeding_stage P S) = thk S"
  by (simp_all add: seeding_stage_def merge_seeds_def seeding_particles_def Let_def)

lemma aligned_seeding_stage: "aligned S \<Longrightarrow> aligned (seeding_stage P S)"
  by (cases "seeding_due P S")
     (simp_all add: aligned_def seeding_stage_due seeding_stage_not_due)

text \<open>
  C5. When the seeding test of line 70 holds, the seeding stage appends one particle for
  every cell of the mask \<open>I\<close>, in row-major order: their number is the number of cells of
  the grid with thickness above 10, surface mass balance above -2 and \<open>gridseed\<close> set. The
  new particle of a cell sits at the cell's \<open>X\<close>, \<open>Y\<close> and surface elevation and has
  \<open>rhpos = 1\<close>, \<open>wpos = 1\<close>, \<open>tpos\<close> the current time and \<open>englt = 0\<close>. The particles stored
  before are an unchanged prefix of every array.
\<close>

theorem seeding_appends_batch:
  assumes "seeding_due P S"
  shows "length (seed_cells S) =
           card {(j, i). j < ny S \<and> i < nx S \<and>
                         10 < thk S j i \<and> - 2 < smb S j i \<and> gridseed S j i} \<and>
         xpos (seeding_stage P S) = xpos S @ map (\<lambda>(j, i). X_mesh S j i) (seed_cells S) \<and>
         ypos (seeding_stage P S) = ypos S @ map (\<lambda>(j, i). Y_mesh S j i) (seed_cells S) \<and>
         zpos (seeding_stage P S) = zpos S @ map (\<lambda>(j, i). usurf S j i) (seed_cells S) \<and>
         rhpos (seeding_stage P S) = rhpos S @ replicate (length (seed_cells S)) 1 \<and>
         wpos (seeding_stage P S) = wpos S @ replicate (length (seed_cells S)) 1 \<and>
         tpos (seeding_stage P S) = tpos S @ replicate (length (seed_cells S)) (t_now S) \<and>
         englt (seeding_stage P S) = englt S @ replicate (length (seed_cells S)) 0"
proof -
  note batch = seeding_stage_due [OF assms]
  show ?thesis
    by (simp only: length_seed_cells batch simp_thms)
qed

lemma seed_cells_slab: "seed_cells slab = [(0, 0), (0, 2), (2, 0), (2, 2)]"
  by (simp add: seed_cells_def grid_cells_def seed_mask_def slab_def upt_rec)

lemma seeding_due_slab: "seeding_due (config ''3d'' 5 (1 / 5)) slab"
  by (simp add: seeding_due_def config_def slab_def)

theorem seeding_appends_batch_witness:
  "seeding_due (config ''3d'' 5 (1 / 5)) slab \<and>
   card {(j, i). j < ny slab \<and> i < nx slab \<and>
                 10 < thk slab j i \<and> - 2 < smb slab j i \<and> gridseed slab j i} = 4 \<and>
   xpos (seeding_stage (config ''3d'' 5 (1 / 5)) slab) = [50, 100, 0, 200, 0, 200] \<and>
   ypos (seeding_stage (config ''3d'' 5 (1 / 5)) slab) = [50, 50, 0, 0, 200, 200] \<and>
   zpos (seeding_stage (config ''3d'' 5 (1 / 5)) slab) = [1060, 1026, 1050, 1052, 1050, 1052] \<and>
   rhpos (seeding_stage (config ''3d'' 5 (1 / 5)) slab) = [1, 1 / 2, 1, 1, 1, 1] \<and>
   wpos (seeding_stage (config ''3d'' 5 (1 / 5)) slab) = [2, 1, 1, 1, 1, 1] \<and>
   tpos (seeding_stage (config ''3d'' 5 (1 / 5)) slab) = [0, 0, 20, 20, 20, 20] \<and>
   englt (seeding_stage (config ''3d'' 5 (1 / 5)) slab) = [0, 5, 0, 0, 0, 0]"
proof -
  have store: "xpos slab = [50, 100]" "ypos slab = [50, 50]" "zpos slab = [1060, 1026]"
    "rhpos slab = [1, 1 / 2]" "wpos slab = [2, 1]" "tpos slab = [0, 0]" "englt slab = [0, 5]"
    "t_now slab = 20"
    by (simp_all add: slab_def)
  have fields: "X_mesh slab = (\<lambda>j i. 100 * real i)" "Y_mesh slab = (\<lambda>j i. 100 * real j)"
    "usurf slab = (\<lambda>j i. 1050 + real i)"
    by (simp_all add: slab_def)
  show ?thesis
    using seeding_appends_batch [OF seeding_due_slab] seeding_due_slab
    by (simp add: seed_cells_slab store fields eval_nat_numeral)
qed

section \<open>The integrator stage\<close>

lemma length_particle_indices:
  "aligned S \<Longrightarrow> length (particle_indices S) = length (xpos S)"
  by (simp add: particle_indices_def aligned_def)

lemma length_sample [simp]: "length (sample E S F indices) = length indices"
  by (simp add: sample_def)

lemma nth_sample:
  "k < length (particle_indices S) \<Longrightarrow>
   sample E S F (particle_indices S) ! k = sampled_at E S F k"
  by (simp add: sample_def sampled_at_def)

lemma clip_by_value_bounds: "lo \<le> hi \<Longrightarrow> lo \<le> clip_by_value v lo hi \<and> clip_by_value v lo hi \<le> hi"
  by (simp add: clip_by_value_def)

lemma update_as_stages:
  "update_particles_v1 E P S =
     (if x_axis S = [] \<or> y_axis S = [] then Inl IndexError
      else accumulate E (particle_indices (seeding_stage P S)) (integrated E P S))"
  by (simp add: update_particles_v1_def integrated_def Let_def seeding_stage_host)

lemma integrated_host:
  "ny (integrated E P S) = ny S" "nx (integrated E P S) = nx S"
  "dt (integrated E P S) = dt S" "dx (integrated E P S) = dx S"
  "x_axis (integrated E P S) = x_axis S" "y_axis (integrated E P S) = y_axis S"
  "wpos (integrated E P S) = wpos (seeding_stage P S)"
  "tpos (integrated E P S) = tpos (seeding_stage P S)"
  "englt (integrated E P S) = englt (seeding_stage P S)"
  "tlast_seeding (integrated E P S) = tlast_seeding (seeding_stage P S)"
  by (simp_all add: integrated_def Let_def advect_def advect_simple_def advect_3d_def
        seeding_stage_host split: prod.splits)

lemma update_Inr:
  assumes "update_particles_v1 E P S = Inr S'"
  shows "x_axis S \<noteq> []" and "y_axis S \<noteq> []"
    and "\<exists>wgt. tensor_scatter_nd_add (scatter_device E) (ny S) (nx S) (\<lambda>j i. 0)
                 (zip (map (\<lambda>(j, i). (cast_int32 j, cast_int32 i))
                         (particle_indices (seeding_stage P S)))
                      (map2 (\<lambda>r w. if r = 1 then w else 0)
                         (rhpos (integrated E P S)) (wpos (seeding_stage P S)))) = Inr wgt \<and>
               S' = (integrated E P S)
                      \<lparr>weight_particles := wgt,
                       englt := map2 (\<lambda>e r. e + (if r < 1 then dt S else 0))
                                  (englt (seeding_stage P S)) (rhpos (integrated E P S))\<rparr>"
proof -
  show axes: "x_axis S \<noteq> []" "y_axis S \<noteq> []"
    using assms by (auto simp: update_as_stages split: if_splits)
  then have "accumulate E (particle_indices (seeding_stage P S)) (integrated E P S) = Inr S'"
    using assms by (simp add: update_as_stages)
  then show "\<exists>wgt. tensor_scatter_nd_add (scatter_device E) (ny S) (nx S) (\<lambda>j i. 0)
                 (zip (map (\<lambda>(j, i). (cast_int32 j, cast_int32 i))
                         (particle_indices (seeding_stage P S)))
                      (map2 (\<lambda>r w. if r = 1 then w else 0)
                         (rhpos (integrated E P S)) (wpos (seeding_stage P S)))) = Inr wgt \<and>
               S' = (integrated E P S)
                      \<lparr>weight_particles := wgt,
                       englt := map2 (\<lambda>e r. e + (if r < 1 then dt S else 0))
                                  (englt (seeding_stage P S)) (rhpos (integrated E P S))\<rparr>"
    by (auto simp: accumulate_def Let_def integrated_host split: sum.splits cong del: if_weak_cong)
qed

lemma update_Inr_fields:
  assumes "update_particles_v1 E P S = Inr S'"
  shows "xpos S' = xpos (integrated E P S)" "ypos S' = ypos (integrated E P S)"
    "zpos S' = zpos (integrated E P S)" "rhpos S' = rhpos (integrated E P S)"
    "wpos S' = wpos (seeding_stage P S)" "tpos S' = tpos (seeding_stage P S)"
    "englt S' = map2 (\<lambda>e r. e + (if r < 1 then dt S else 0))
                  (englt (seeding_stage P S)) (rhpos S')"
    "tlast_seeding S' = tlast_seeding (seeding_stage P S)"
    "wvelbase S' = wvelbase (integrated E P S)" "wvelsurf S' = wvelsurf (integrated E P S)"
    "ny S' = ny S" "nx S' = nx S"
  using update_Inr(3) [OF assms] by (auto simp: integrated_host)


lemma aligned_advect_simple:
  assumes "aligned S"
  shows "aligned (advect_simple (sample_fields E S (particle_indices S)) S)"
    and "length (xpos (advect_simple (sample_fields E S (particle_indices S)) S)) = length (xpos S)"
  using assms length_particle_indices [OF assms]
  by (simp_all add: aligned_def advect_simple_def sample_fields_def Let_def)

lemma aligned_advect_3d:
  assumes "aligned S"
  shows "aligned (advect_3d E (sample_fields E S (particle_indices S)) (particle_indices S) S)"
    and "length (xpos (advect_3d E (sample_fields E S (particle_indices S)) (particle_indices S) S))
           = length (xpos S)"
  using assms length_particle_indices [OF assms]
  by (simp_all add: aligned_def advect_3d_def sample_fields_def Let_def split: prod.splits)

lemma aligned_integrated:
  assumes "aligned S"
  shows "aligned (integrated E P S)"
    and "length (xpos (integrated E P S)) = length (xpos (seeding_stage P S))"
  using aligned_advect_simple [OF aligned_seeding_stage [OF assms]]
        aligned_advect_3d [OF aligned_seeding_stage [OF assms]]
        aligned_seeding_stage [OF assms]
  by (simp_all add: integrated_def Let_def advect_def)


lemma advect_3d_nth:
  fixes E :: externals and S :: state and k :: nat
  assumes "aligned S" and "k < length (xpos S)"
  defines "A \<equiv> advect_3d E (sample_fields E S (particle_indices S)) (particle_indices S) S"
  defines "bed \<equiv> sampled_at E S (topg S) k" and "H \<equiv> sampled_at E S (thk S) k"
  defines "zc \<equiv> clip_by_value (zpos S ! k) bed (bed + H)"
  shows "rhpos A ! k = (if 0.1 < H then (zc - bed) / H else 1)"
    and "zpos A ! k = zc + dt S * sia_blend (sampled_at E S (wvelbase A) k)
                                     (sampled_at E S (wvelsurf A) k) (rhpos A ! k)"
    and "xpos A ! k = clip_by_value
                        (xpos S ! k + dt S * sia_blend (sampled_at E S (uvelbase S) k)
                                           (sampled_at E S (uvelsurf S) k) (rhpos A ! k))
                        (hd (x_axis S)) (last (x_axis S))"
    and "ypos A ! k = clip_by_value
                        (ypos S ! k + dt S * sia_blend (sampled_at E S (vvelbase S) k)
                                           (sampled_at E S (vvelsurf S) k) (rhpos A ! k))
                        (hd (y_axis S)) (last (y_axis S))"
  using assms(1,2) length_particle_indices [OF assms(1)]
  unfolding A_def bed_def H_def zc_def
  by (simp_all add: aligned_def advect_3d_def sample_fields_def Let_def nth_map3 nth_sample
        split: prod.splits)

section \<open>The scatter-add\<close>

lemma scatter_returns:
  assumes "dev = GPU \<or> (\<forall>(c, u) \<in> set ups. 0 \<le> fst c \<and> fst c < int m \<and> 0 \<le> snd c \<and> snd c < int n)"
  shows "\<exists>w'. tensor_scatter_nd_add dev m n w ups = Inr w'"
  using assms
  by (induction dev m n w ups rule: tensor_scatter_nd_add.induct) (auto split: device.splits)

lemma scatter_cpu_in_grid:
  assumes "tensor_scatter_nd_add CPU m n w ups = Inr w'"
  shows "\<forall>(c, u) \<in> set ups. 0 \<le> fst c \<and> fst c < int m \<and> 0 \<le> snd c \<and> snd c < int n"
  using assms
proof (induction ups arbitrary: w)
  case Nil
  then show ?case by simp
next
  case (Cons p ups)
  obtain j i u where p: "p = ((j, i), u)" by (metis surj_pair)
  from Cons.prems have inb: "0 \<le> j \<and> j < int m \<and> 0 \<le> i \<and> i < int n"
    by (simp add: p split: if_splits)
  with Cons.prems have "tensor_scatter_nd_add CPU m n
      (w(nat j := (w (nat j))(nat i := w (nat j) (nat i) + u))) ups = Inr w'"
    by (simp add: p)
  from Cons.IH [OF this] inb show ?case by (simp add: p)
qed

lemma scatter_cell:
  assumes "tensor_scatter_nd_add dev m n w ups = Inr w'" and "a < m" and "b < n"
  shows "w' a b = w a b + sum_list (map snd (filter (\<lambda>(c, u). c = (int a, int b)) ups))"
  using assms
proof (induction ups arbitrary: w)
  case Nil
  then show ?case by simp
next
  case (Cons p ups)
  obtain j i u where p: "p = ((j, i), u)" by (metis surj_pair)
  show ?case
  proof (cases "0 \<le> j \<and> j < int m \<and> 0 \<le> i \<and> i < int n")
    case True
    let ?w1 = "w(nat j := (w (nat j))(nat i := w (nat j) (nat i) + u))"
    from Cons.prems(1) True have "tensor_scatter_nd_add dev m n ?w1 ups = Inr w'"
      by (simp add: p)
    from Cons.IH [OF this Cons.prems(2,3)]
    have "w' a b = ?w1 a b + sum_list (map snd (filter (\<lambda>(c, u). c = (int a, int b)) ups))" .
    moreover have "?w1 a b = w a b + (if (j, i) = (int a, int b) then u else 0)"
      using True by auto
    ultimately show ?thesis by (simp add: p)
  next
    case False
    with Cons.prems(1) have "tensor_scatter_nd_add dev m n w ups = Inr w'"
      by (simp add: p split: device.splits)
    from Cons.IH [OF this Cons.prems(2,3)] False Cons.prems(2,3) show ?thesis
      by (auto simp: p)
  qed
qed

lemma sum_list_rows: "sum_list (concat xss) = sum_list (map sum_list xss)"
  for xss :: "real list list"
  by (induction xss) simp_all

lemma grid_total_sum: "grid_total m n w = (\<Sum>a<m. \<Sum>b<n. w a b)"
  by (simp add: grid_total_def ravel_def sum_list_rows comp_def
        interv_sum_list_conv_sum_set_nat atLeast0LessThan)

lemma sum_list_filter_nth:
  "sum_list (map f (filter Q xs)) = (\<Sum>k | k < length xs \<and> Q (xs ! k). f (xs ! k))"
proof -
  have "sum_list (map f (filter Q xs)) = sum_list (map (\<lambda>x. if Q x then f x else 0) xs)"
    by (rule sum_list_map_filter') 
  also have "\<dots> = (\<Sum>k<length xs. if Q (xs ! k) then f (xs ! k) else 0)"
    by (simp add: sum_list_sum_nth atLeast0LessThan)
  also have "\<dots> = (\<Sum>k | k < length xs \<and> Q (xs ! k). f (xs ! k))"
    by (simp add: sum.inter_filter [symmetric] lessThan_def)
  finally show ?thesis .
qed

section \<open>Concrete runs on the slab\<close>

lemma slab_host:
  "ny slab = 3" "nx slab = 3" "t_now slab = 20" "dt slab = 1" "dx slab = 100"
  "x_axis slab = [0, 100, 200]" "y_axis slab = [0, 100, 200]"
  "thk slab = (\<lambda>j i. 50)" "topg slab = (\<lambda>j i. 1000 + real i)"
  "usurf slab = (\<lambda>j i. 1050 + real i)" "smb slab = (\<lambda>j i. 0)"
  "uvelbase slab = (\<lambda>j i. 0)" "vvelbase slab = (\<lambda>j i. 0)"
  "uvelsurf slab = (\<lambda>j i. 100)" "vvelsurf slab = (\<lambda>j i. 0)"
  "ubar slab = (\<lambda>j i. 80)" "vbar slab = (\<lambda>j i. 0)"
  "tlast_seeding slab = Some 15"
  by (simp_all add: slab_def)

lemma slab_store:
  "xpos slab = [50, 100]" "ypos slab = [50, 50]" "zpos slab = [1060, 1026]"
  "rhpos slab = [1, 1 / 2]" "wpos slab = [2, 1]" "tpos slab = [0, 0]" "englt slab = [0, 5]"
  by (simp_all add: slab_def)

lemma config_sel:
  "tracking_method (config m f d) = m" "frequency_seeding (config m f d) = f"
  "density_seeding (config m f d) = d"
  by (simp_all add: config_def)

lemma aligned_slab: "aligned slab"
  by (simp add: aligned_def slab_store)

lemma not_due_slab: "\<not> seeding_due (config m 10 d) slab"
  by (simp add: seeding_due_def config_sel slab_host)

lemma stage_slab: "seeding_stage (config m 10 d) slab = slab"
  by (simp add: seeding_stage_not_due not_due_slab)

lemma indices_slab: "particle_indices slab = [(1 / 2, 1 / 2), (1 / 2, 1)]"
  by (simp add: particle_indices_def slab_host slab_store)

lemma bilinear_const: "clamped_bilinear m n (\<lambda>j i. c) q = c"
  by (cases q) (simp add: clamped_bilinear_def Let_def)

lemma bilinear_topg:
  "clamped_bilinear 3 3 (\<lambda>j i. 1000 + real i) (1 / 2, 1 / 2) = 2001 / 2"
  "clamped_bilinear 3 3 (\<lambda>j i. 1000 + real i) (1 / 2, 1) = 1001"
  by (simp_all add: clamped_bilinear_def Let_def)

lemma samples_slab:
  "sample_fields (host_ops dev) slab [(1 / 2, 1 / 2), (1 / 2, 1)] =
     \<lparr>s_uvelbase = [0, 0], s_vvelbase = [0, 0], s_uvelsurf = [100, 100], s_vvelsurf = [0, 0],
      s_othk = [50, 50], s_topg = [2001 / 2, 1001], s_smb = [0, 0]\<rparr>"
  by (simp add: sample_fields_def sample_def host_ops_def slab_host bilinear_const bilinear_topg)

lemma integrated_simple:
  "rhpos (integrated (host_ops dev) (config ''simple'' 10 d) slab) = [1, 1 / 2]"
  "xpos (integrated (host_ops dev) (config ''simple'' 10 d) slab) = [150, 775 / 4]"
  "ypos (integrated (host_ops dev) (config ''simple'' 10 d) slab) = [50, 50]"
  "zpos (integrated (host_ops dev) (config ''simple'' 10 d) slab) = [2101 / 2, 1026]"
  by (simp_all add: integrated_def stage_slab indices_slab samples_slab advect_def
        advect_simple_def config_sel map3_def clip_by_value_def sia_blend_def slab_host
        slab_store power_divide)

section \<open>The accumulation stage\<close>

lemma length_deposit_cells:
  "aligned S \<Longrightarrow> length (deposit_cells P S) = length (xpos (seeding_stage P S))"
  by (simp add: deposit_cells_def length_particle_indices aligned_seeding_stage)

lemma nth_deposit_cells:
  assumes "aligned S" and "k < length (xpos (seeding_stage P S))"
  shows "deposit_cells P S ! k =
           cell_of S (xpos (seeding_stage P S) ! k) (ypos (seeding_stage P S) ! k)"
proof -
  have al: "aligned (seeding_stage P S)" using assms(1) by (rule aligned_seeding_stage)
  then have "length (ypos (seeding_stage P S)) = length (xpos (seeding_stage P S))"
    by (simp add: aligned_def)
  with assms(2) show ?thesis
    by (simp add: deposit_cells_def particle_indices_def cell_of_def seeding_stage_host)
qed

lemma length_rhpos_integrated:
  "aligned S \<Longrightarrow> length (rhpos (integrated E P S)) = length (xpos (seeding_stage P S))"
  using aligned_integrated [of S E P] by (simp add: aligned_def)

lemma length_store_seeded:
  assumes "aligned S"
  shows "length (wpos (seeding_stage P S)) = length (xpos (seeding_stage P S))"
    and "length (englt (seeding_stage P S)) = length (xpos (seeding_stage P S))"
    and "length (rhpos (seeding_stage P S)) = length (xpos (seeding_stage P S))"
  using aligned_seeding_stage [OF assms, of P] by (simp_all add: aligned_def)

lemma update_accumulates:
  assumes "update_particles_v1 E P S = Inr S'"
  shows "tensor_scatter_nd_add (scatter_device E) (ny S) (nx S) (\<lambda>j i. 0)
           (zip (deposit_cells P S)
                (map2 (\<lambda>r w. if r = 1 then w else 0) (rhpos S') (wpos S')))
         = Inr (weight_particles S')"
  using update_Inr(3) [OF assms] update_Inr_fields(4,5) [OF assms]
  by (auto simp: deposit_cells_def)

lemma update_returns:
  assumes "x_axis S \<noteq> []" and "y_axis S \<noteq> []"
    and "scatter_device E = GPU \<or> list_all (in_grid S) (deposit_cells P S)"
  shows "\<exists>S'. update_particles_v1 E P S = Inr S'"
proof -
  let ?ups = "zip (deposit_cells P S)
                (map2 (\<lambda>r w. if r = 1 then w else 0)
                   (rhpos (integrated E P S)) (wpos (integrated E P S)))"
  have "scatter_device E = GPU \<or>
        (\<forall>(c, u) \<in> set ?ups. 0 \<le> fst c \<and> fst c < int (ny S) \<and> 0 \<le> snd c \<and> snd c < int (nx S))"
    using assms(3) by (auto simp: list_all_iff in_grid_def dest!: set_zip_leftD)
  from scatter_returns [OF this]
  obtain w' where "tensor_scatter_nd_add (scatter_device E) (ny S) (nx S) (\<lambda>j i. 0) ?ups = Inr w'"
    by blast
  then show ?thesis
    using assms(1,2)
    by (simp add: update_as_stages accumulate_def Let_def integrated_host deposit_cells_def)
qed

lemma update_cpu_in_grid:
  assumes "update_particles_v1 E P S = Inr S'" and "aligned S" and "scatter_device E = CPU"
  shows "list_all (in_grid S) (deposit_cells P S)"
proof -
  let ?us = "map2 (\<lambda>r w. if r = 1 then w else 0) (rhpos S') (wpos S')"
  have len: "length ?us = length (deposit_cells P S)"
    using assms(2)
    by (simp add: update_Inr_fields(4,5) [OF assms(1)] length_rhpos_integrated
          length_store_seeded length_deposit_cells)
  have "\<forall>(c, u) \<in> set (zip (deposit_cells P S) ?us).
          0 \<le> fst c \<and> fst c < int (ny S) \<and> 0 \<le> snd c \<and> snd c < int (nx S)"
    using update_accumulates [OF assms(1)] unfolding assms(3) by (rule scatter_cpu_in_grid)
  moreover have "\<exists>u. (c, u) \<in> set (zip (deposit_cells P S) ?us)"
    if "c \<in> set (deposit_cells P S)" for c
  proof -
    from that obtain k where k: "k < length (deposit_cells P S)" "deposit_cells P S ! k = c"
      by (auto simp: in_set_conv_nth)
    then have "(c, ?us ! k) \<in> set (zip (deposit_cells P S) ?us)"
      using len by (auto simp: set_zip)
    then show ?thesis ..
  qed
  ultimately show ?thesis
    by (fastforce simp: list_all_iff in_grid_def)
qed

lemma update_fails_iff:
  assumes "aligned S"
  shows "isl (update_particles_v1 E P S) \<longleftrightarrow>
           x_axis S = [] \<or> y_axis S = [] \<or>
           (scatter_device E = CPU \<and> \<not> list_all (in_grid S) (deposit_cells P S))"
proof (cases "update_particles_v1 E P S")
  case (Inl e)
  have "x_axis S = [] \<or> y_axis S = [] \<or>
        (scatter_device E = CPU \<and> \<not> list_all (in_grid S) (deposit_cells P S))"
  proof (rule ccontr)
    assume "\<not> ?thesis"
    then have "x_axis S \<noteq> []" "y_axis S \<noteq> []"
      "scatter_device E = GPU \<or> list_all (in_grid S) (deposit_cells P S)"
      by (auto intro: device.exhaust)
    from update_returns [OF this] Inl show False by simp
  qed
  with Inl show ?thesis by simp
next
  case (Inr S')
  from update_Inr(1,2) [OF Inr] update_cpu_in_grid [OF Inr assms] Inr
  show ?thesis by auto
qed

lemma sum_if_restrict:
  fixes f :: "nat \<Rightarrow> real"
  shows "(\<Sum>k | k < n \<and> Q k. if R k then f k else 0) = (\<Sum>k | k < n \<and> R k \<and> Q k. f k)"
proof -
  have "(\<Sum>k | k < n \<and> Q k. if R k then f k else 0) = (\<Sum>k \<in> {k \<in> {k. k < n \<and> Q k}. R k}. f k)"
    by (rule sum.inter_filter [symmetric]) simp
  also have "{k \<in> {k. k < n \<and> Q k}. R k} = {k. k < n \<and> R k \<and> Q k}" by auto
  finally show ?thesis .
qed

lemma scattered_sum:
  assumes "length cs = n" and "length rs = n" and "length ws = n"
  shows "sum_list (map snd (filter (\<lambda>(c, u). Q c)
            (zip cs (map2 (\<lambda>r w. if r = 1 then w else 0) rs ws))))
         = (\<Sum>k | k < n \<and> rs ! k = (1::real) \<and> Q (cs ! k). (ws ! k :: real))"
proof -
  let ?xs = "zip cs (map2 (\<lambda>r w. if r = 1 then w else 0) rs ws)"
  have len: "length ?xs = n" using assms by simp
  have nth: "?xs ! k = (cs ! k, if rs ! k = 1 then ws ! k else 0)" if "k < n" for k
    using that assms by simp
  have "sum_list (map snd (filter (\<lambda>(c, u). Q c) ?xs))
          = (\<Sum>k | k < length ?xs \<and> (case ?xs ! k of (c, u) \<Rightarrow> Q c). snd (?xs ! k))"
    by (rule sum_list_filter_nth)
  also have "\<dots> = (\<Sum>k | k < n \<and> Q (cs ! k). if rs ! k = 1 then ws ! k else 0)"
    unfolding len by (rule sum.cong) (auto simp: nth)
  also have "\<dots> = (\<Sum>k | k < n \<and> rs ! k = 1 \<and> Q (cs ! k). ws ! k)"
    by (rule sum_if_restrict)
  finally show ?thesis .
qed

lemma weight_cell:
  assumes "update_particles_v1 E P S = Inr S'" and "aligned S" and "a < ny S" and "b < nx S"
  shows "weight_particles S' a b =
           (\<Sum>k | k < length (wpos S') \<and> rhpos S' ! k = 1 \<and>
                   deposit_cells P S ! k = (int a, int b). wpos S' ! k)"
proof -
  let ?n = "length (xpos (seeding_stage P S))"
  have lens: "length (deposit_cells P S) = ?n" "length (rhpos S') = ?n" "length (wpos S') = ?n"
    using assms(2)
    by (simp_all add: update_Inr_fields(4,5) [OF assms(1)] length_rhpos_integrated
          length_store_seeded length_deposit_cells)
  have "weight_particles S' a b =
          0 + sum_list (map snd (filter (\<lambda>(c, u). c = (int a, int b))
                (zip (deposit_cells P S)
                     (map2 (\<lambda>r w. if r = 1 then w else 0) (rhpos S') (wpos S')))))"
    by (rule scatter_cell [OF update_accumulates [OF assms(1)] assms(3,4)])
  also have "\<dots> = (\<Sum>k | k < ?n \<and> rhpos S' ! k = 1 \<and>
                        deposit_cells P S ! k = (int a, int b). wpos S' ! k)"
    using scattered_sum [OF lens, of "\<lambda>c. c = (int a, int b)"] by simp
  finally show ?thesis by (simp add: lens)
qed

section \<open>Relative height\<close>

lemma cells_slab: "deposit_cells (config m 10 d) slab = [(0, 0), (0, 1)]"
  by (simp add: deposit_cells_def stage_slab indices_slab cast_int32_def)

lemma returns_slab: "\<exists>S'. update_particles_v1 (host_ops dev) (config m 10 d) slab = Inr S'"
  by (rule update_returns) (simp_all add: slab_host cells_slab in_grid_def)



section \<open>Englacial time\<close>

text \<open>
  C9. When a call returns, the englacial time of every particle whose relative height
  after the integrator stage is below 1 has grown by exactly \<open>dt\<close>, and that of every
  particle whose relative height is 1 (or more) is unchanged. The value before the call
  is the stored one for a particle that was already in the store and 0 for a particle
  seeded by this call.
\<close>

theorem englt_accumulates:
  assumes "update_particles_v1 E P S = Inr S'" and "aligned S" and "k < length (englt S')"
  shows "length (englt S') = length (rhpos S') \<and>
         length (englt S') = length (englt (seeding_stage P S)) \<and>
         (rhpos S' ! k < 1 \<longrightarrow> englt S' ! k = englt (seeding_stage P S) ! k + dt S) \<and>
         (1 \<le> rhpos S' ! k \<longrightarrow> englt S' ! k = englt (seeding_stage P S) ! k) \<and>
         (k < length (englt S) \<longrightarrow> englt (seeding_stage P S) ! k = englt S ! k) \<and>
         (length (englt S) \<le> k \<longrightarrow> englt (seeding_stage P S) ! k = 0)"
proof -
  let ?S1 = "seeding_stage P S"
  let ?n = "length (xpos ?S1)"
  have lens: "length (rhpos S') = ?n" "length (englt ?S1) = ?n"
    using assms(2)
    by (simp_all add: update_Inr_fields(4) [OF assms(1)] length_rhpos_integrated
          length_store_seeded)
  have eq: "englt S' = map2 (\<lambda>e r. e + (if r < 1 then dt S else 0)) (englt ?S1) (rhpos S')"
    by (rule update_Inr_fields(7) [OF assms(1)])
  have len: "length (englt S') = ?n"
    by (simp add: eq lens)
  have k: "k < ?n" using assms(3) len by simp
  have nth: "englt S' ! k = englt ?S1 ! k + (if rhpos S' ! k < 1 then dt S else 0)"
    using k lens by (simp add: eq)
  have old: "englt ?S1 ! k = englt S ! k" if "k < length (englt S)"
    using that by (cases "seeding_due P S")
      (simp_all add: seeding_stage_due seeding_stage_not_due nth_append)
  have new: "englt ?S1 ! k = 0" if "length (englt S) \<le> k"
  proof (cases "seeding_due P S")
    case True
    with that k lens(2) show ?thesis
      by (simp add: seeding_stage_due nth_append)
  next
    case False
    with that k lens(2) show ?thesis
      by (simp add: seeding_stage_not_due)
  qed
  from len lens nth old new show ?thesis by simp
qed

theorem englt_accumulates_witness:
  "\<exists>S'. update_particles_v1 (host_ops CPU) (config ''simple'' 10 (1 / 5)) slab = Inr S' \<and>
        aligned slab \<and> 1 < length (englt S') \<and>
        rhpos S' = [1, 1 / 2] \<and> englt slab = [0, 5] \<and> dt slab = 1 \<and>
        englt S' ! 0 = 0 \<and> englt S' ! 1 = 6"
proof -
  obtain S' where ret: "update_particles_v1 (host_ops CPU) (config ''simple'' 10 (1 / 5)) slab = Inr S'"
    using returns_slab by blast
  have rh: "rhpos S' = [1, 1 / 2]"
    by (simp add: update_Inr_fields(4) [OF ret] integrated_simple)
  have len: "length (englt S') = 2"
    by (simp add: update_Inr_fields(7) [OF ret] rh stage_slab slab_store)
  then have k0: "0 < length (englt S')" and k1: "1 < length (englt S')" by simp_all
  from englt_accumulates [OF ret aligned_slab k0] rh
  have e0: "englt S' ! 0 = 0" by (simp add: stage_slab slab_store)
  from englt_accumulates [OF ret aligned_slab k1] rh
  have e1: "englt S' ! 1 = 6" by (simp add: stage_slab slab_store slab_host)
  from ret aligned_slab k1 rh e0 e1 show ?thesis
    by (auto simp: slab_store slab_host)
qed

section \<open>An unknown tracking method\<close>

text \<open>
  C10. With a tracking method other than \<open>simple\<close> and \<open>3d\<close> the integrator stage changes
  nothing at all. The call fails in exactly the cases in which it fails for every method
  (an empty coordinate axis, or a cell outside the grid on the CPU), so the method itself
  raises no error; when it returns, positions and relative heights are those left by the
  seeding stage, the englacial time is advanced from these relative heights, and the
  weight of a cell is the sum of \<open>wpos\<close> over the particles with relative height 1 that
  are deposited there.
\<close>

theorem unknown_method_skips_advection:
  assumes "tracking_method P \<noteq> ''simple''" and "tracking_method P \<noteq> ''3d''" and "aligned S"
  shows "integrated E P S = seeding_stage P S \<and>
         (isl (update_particles_v1 E P S) \<longleftrightarrow>
            x_axis S = [] \<or> y_axis S = [] \<or>
            (scatter_device E = CPU \<and> \<not> list_all (in_grid S) (deposit_cells P S))) \<and>
         (\<forall>S'. update_particles_v1 E P S = Inr S' \<longrightarrow>
            xpos S' = xpos (seeding_stage P S) \<and> ypos S' = ypos (seeding_stage P S) \<and>
            zpos S' = zpos (seeding_stage P S) \<and> rhpos S' = rhpos (seeding_stage P S) \<and>
            englt S' = map2 (\<lambda>e r. e + (if r < 1 then dt S else 0))
                         (englt (seeding_stage P S)) (rhpos (seeding_stage P S)) \<and>
            (\<forall>a < ny S. \<forall>b < nx S.
               weight_particles S' a b =
                 (\<Sum>k | k < length (wpos (seeding_stage P S)) \<and>
                         rhpos (seeding_stage P S) ! k = 1 \<and>
                         deposit_cells P S ! k = (int a, int b). wpos (seeding_stage P S) ! k)))"
proof -
  have same: "integrated E P S = seeding_stage P S"
    using assms(1,2) by (simp add: integrated_def Let_def advect_def)
  have fails: "isl (update_particles_v1 E P S) \<longleftrightarrow>
            x_axis S = [] \<or> y_axis S = [] \<or>
            (scatter_device E = CPU \<and> \<not> list_all (in_grid S) (deposit_cells P S))"
    using assms(3) by (rule update_fails_iff)
  have "xpos S' = xpos (seeding_stage P S) \<and> ypos S' = ypos (seeding_stage P S) \<and>
        zpos S' = zpos (seeding_stage P S) \<and> rhpos S' = rhpos (seeding_stage P S) \<and>
        englt S' = map2 (\<lambda>e r. e + (if r < 1 then dt S else 0))
                     (englt (seeding_stage P S)) (rhpos (seeding_stage P S)) \<and>
        (\<forall>a < ny S. \<forall>b < nx S.
           weight_particles S' a b =
             (\<Sum>k | k < length (wpos (seeding_stage P S)) \<and>
                     rhpos (seeding_stage P S) ! k = 1 \<and>
                     deposit_cells P S ! k = (int a, int b). wpos (seeding_stage P S) ! k))"
    if ret: "update_particles_v1 E P S = Inr S'" for S'
  proof -
    note f = update_Inr_fields [OF ret]
    have rh: "rhpos S' = rhpos (seeding_stage P S)" by (simp add: f(4) same)
    have w: "wpos S' = wpos (seeding_stage P S)" by (rule f(5))
    have "weight_particles S' a b =
             (\<Sum>k | k < length (wpos (seeding_stage P S)) \<and>
                     rhpos (seeding_stage P S) ! k = 1 \<and>
                     deposit_cells P S ! k = (int a, int b). wpos (seeding_stage P S) ! k)"
      if "a < ny S" "b < nx S" for a b
      using weight_cell [OF ret assms(3) that] by (simp only: rh w)
    moreover have "englt S' = map2 (\<lambda>e r. e + (if r < 1 then dt S else 0))
                     (englt (seeding_stage P S)) (rhpos (seeding_stage P S))"
      using f(7) by (simp only: rh)
    ultimately show ?thesis
      using f(1,2,3) rh by (simp add: same)
  qed
  with same fails show ?thesis by blast
qed

lemma stayed_slab:
  "{k. k < length (wpos slab) \<and> rhpos slab ! k = 1 \<and>
       deposit_cells (config m 10 d) slab ! k = (int 0, int 0)} = {0}"
  by (auto simp: slab_store cells_slab nth_Cons')

theorem unknown_method_skips_advection_witness:
  "tracking_method (config ''none'' 10 (1 / 5)) \<noteq> ''simple'' \<and>
   tracking_method (config ''none'' 10 (1 / 5)) \<noteq> ''3d'' \<and>
   aligned slab \<and>
   (\<exists>S'. update_particles_v1 (host_ops CPU) (config ''none'' 10 (1 / 5)) slab = Inr S' \<and>
         xpos S' = [50, 100] \<and> ypos S' = [50, 50] \<and> zpos S' = [1060, 1026] \<and>
         rhpos S' = [1, 1 / 2] \<and> englt S' = [0, 6] \<and> weight_particles S' 0 0 = 2)"
proof -
  have m1: "tracking_method (config ''none'' 10 (1 / 5)) \<noteq> ''simple''"
    and m2: "tracking_method (config ''none'' 10 (1 / 5)) \<noteq> ''3d''"
    by (simp_all add: config_sel)
  note inst = unknown_method_skips_advection [OF m1 m2 aligned_slab, of "host_ops CPU"]
  obtain S' where ret: "update_particles_v1 (host_ops CPU) (config ''none'' 10 (1 / 5)) slab = Inr S'"
    using returns_slab by blast
  from inst ret
  have f: "xpos S' = xpos slab" "ypos S' = ypos slab" "zpos S' = zpos slab" "rhpos S' = rhpos slab"
    "englt S' = map2 (\<lambda>e r. e + (if r < 1 then dt slab else 0)) (englt slab) (rhpos slab)"
    by (simp_all add: stage_slab)
  from inst ret have "weight_particles S' 0 0 =
      (\<Sum>k | k < length (wpos slab) \<and> rhpos slab ! k = 1 \<and>
              deposit_cells (config ''none'' 10 (1 / 5)) slab ! k = (int 0, int 0). wpos slab ! k)"
    by (simp add: stage_slab slab_host)
  then have w: "weight_particles S' 0 0 = 2"
    by (simp only: stayed_slab) (simp add: slab_store)
  from ret f w m1 m2 aligned_slab show ?thesis
    by (auto simp: slab_store slab_host)
qed

section \<open>Clamping in the 3-D mode\<close>

lemma advect_3d_fields:
  "wvelbase (advect_3d E Q indices S) =
     (\<lambda>j i. uvelbase S j i * fst (compute_gradient_tf E (ny S) (nx S) (topg S) (dx S) (dx S)) j i
           + vvelbase S j i * snd (compute_gradient_tf E (ny S) (nx S) (topg S) (dx S) (dx S)) j i)"
  "wvelsurf (advect_3d E Q indices S) =
     (\<lambda>j i. uvelsurf S j i * fst (compute_gradient_tf E (ny S) (nx S) (usurf S) (dx S) (dx S)) j i
           + vvelsurf S j i * snd (compute_gradient_tf E (ny S) (nx S) (usurf S) (dx S) (dx S)) j i
           - compute_divflux E (ny S) (nx S) (ubar S) (vbar S) (thk S) (dx S) (dx S) j i)"
  by (simp_all add: advect_3d_def Let_def split: prod.splits)

lemma host_ops_sel:
  "interpolate_bilinear (host_ops dev) = clamped_bilinear"
  "compute_gradient_tf (host_ops dev) = centred_gradient"
  "compute_divflux (host_ops dev) = centred_divflux"
  "scatter_device (host_ops dev) = dev"
  by (simp_all add: host_ops_def)

lemma gradient_const: "centred_gradient m n (\<lambda>j i. c) hx hy = (\<lambda>j i. 0, \<lambda>j i. 0)"
  by (simp add: centred_gradient_def)

lemma gradient_usurf_slab:
  assumes "i < 3"
  shows "fst (centred_gradient 3 3 (\<lambda>j i. 1050 + real i) 100 100) j i = 1 / 100"
proof -
  from assms consider "i = 0" | "i = 1" | "i = 2" by linarith
  then show ?thesis by cases (simp_all add: centred_gradient_def)
qed

lemma integrated_3d_slab:
  "integrated (host_ops dev) (config ''3d'' 10 d) slab =
     advect_3d (host_ops dev) (sample_fields (host_ops dev) slab (particle_indices slab))
       (particle_indices slab) slab"
  by (simp add: integrated_def Let_def stage_slab advect_def config_sel)

lemma wvel_slab:
  "wvelbase (integrated (host_ops dev) (config ''3d'' 10 d) slab) = (\<lambda>j i. 0)"
  "i < 3 \<Longrightarrow> wvelsurf (integrated (host_ops dev) (config ''3d'' 10 d) slab) j i = 1"
  by (simp_all add: integrated_3d_slab advect_3d_fields host_ops_sel slab_host
        centred_divflux_def gradient_const gradient_usurf_slab)

lemma sampled_slab:
  "sampled_at (host_ops dev) slab (topg slab) 0 = 2001 / 2"
  "sampled_at (host_ops dev) slab (thk slab) 0 = 50"
  "sampled_at (host_ops dev) slab (uvelbase slab) 0 = 0"
  "sampled_at (host_ops dev) slab (uvelsurf slab) 0 = 100"
  "sampled_at (host_ops dev) slab (vvelbase slab) 0 = 0"
  "sampled_at (host_ops dev) slab (vvelsurf slab) 0 = 0"
  by (simp_all add: sampled_at_def host_ops_sel indices_slab slab_host bilinear_const
        bilinear_topg)

lemma sampled_wvel_slab:
  "sampled_at (host_ops dev) slab
     (wvelbase (integrated (host_ops dev) (config ''3d'' 10 d) slab)) 0 = 0"
  "sampled_at (host_ops dev) slab
     (wvelsurf (integrated (host_ops dev) (config ''3d'' 10 d) slab)) 0 = 1"
  by (simp_all add: sampled_at_def host_ops_sel indices_slab slab_host wvel_slab
        clamped_bilinear_def Let_def)

text \<open>
  C3. In the 3-D mode, for every particle of a returning call: \<open>zpos\<close> is first clamped by
  the sampled bed \<open>bed\<close> and the sampled surface \<open>bed + H\<close>, which puts it between the two
  when the sampled thickness \<open>H\<close> is not negative; the relative height is computed from
  the clamped value; the returned \<open>zpos\<close> is the clamped value plus \<open>dt\<close> times the blended
  vertical velocity, with no clamp after this forward-Euler step; and the returned \<open>xpos\<close>
  and \<open>ypos\<close> are the forward-Euler positions clamped by the first and last entries of the
  coordinate axes, hence inside the domain when the axes ascend.
\<close>

theorem advect_3d_clamps:
  fixes E :: externals and P :: params and S S' :: state and k :: nat
  assumes "update_particles_v1 E P S = Inr S'" and "tracking_method P = ''3d''"
    and "aligned S" and "k < length (xpos S')"
  defines "S1 \<equiv> seeding_stage P S"
  defines "bed \<equiv> sampled_at E S1 (topg S) k" and "H \<equiv> sampled_at E S1 (thk S) k"
  defines "zc \<equiv> clip_by_value (zpos S1 ! k) bed (bed + H)"
  shows "(0 \<le> H \<longrightarrow> bed \<le> zc \<and> zc \<le> bed + H) \<and>
         rhpos S' ! k = (if 0.1 < H then (zc - bed) / H else 1) \<and>
         zpos S' ! k = zc + dt S * sia_blend (sampled_at E S1 (wvelbase S') k)
                                      (sampled_at E S1 (wvelsurf S') k) (rhpos S' ! k) \<and>
         xpos S' ! k = clip_by_value
                         (xpos S1 ! k + dt S * sia_blend (sampled_at E S1 (uvelbase S) k)
                                             (sampled_at E S1 (uvelsurf S) k) (rhpos S' ! k))
                         (hd (x_axis S)) (last (x_axis S)) \<and>
         ypos S' ! k = clip_by_value
                         (ypos S1 ! k + dt S * sia_blend (sampled_at E S1 (vvelbase S) k)
                                             (sampled_at E S1 (vvelsurf S) k) (rhpos S' ! k))
                         (hd (y_axis S)) (last (y_axis S)) \<and>
         (hd (x_axis S) \<le> last (x_axis S) \<longrightarrow>
            hd (x_axis S) \<le> xpos S' ! k \<and> xpos S' ! k \<le> last (x_axis S)) \<and>
         (hd (y_axis S) \<le> last (y_axis S) \<longrightarrow>
            hd (y_axis S) \<le> ypos S' ! k \<and> ypos S' ! k \<le> last (y_axis S))"
proof -
  let ?A = "advect_3d E (sample_fields E S1 (particle_indices S1)) (particle_indices S1) S1"
  have al: "aligned S1" unfolding S1_def using assms(3) by (rule aligned_seeding_stage)
  have int: "integrated E P S = ?A"
    using assms(2) by (simp add: integrated_def Let_def advect_def S1_def)
  note f = update_Inr_fields [OF assms(1)]
  have k: "k < length (xpos S1)"
    using assms(4) aligned_integrated(2) [OF assms(3), of E P] by (simp add: f(1) S1_def)
  have host: "topg S1 = topg S" "thk S1 = thk S" "dt S1 = dt S" "x_axis S1 = x_axis S"
    "y_axis S1 = y_axis S" "uvelbase S1 = uvelbase S" "uvelsurf S1 = uvelsurf S"
    "vvelbase S1 = vvelbase S" "vvelsurf S1 = vvelsurf S"
    by (simp_all add: S1_def seeding_stage_def merge_seeds_def seeding_particles_def Let_def)
  note nth = advect_3d_nth [OF al k, of E, unfolded host]
  have fields: "rhpos S' = rhpos ?A" "zpos S' = zpos ?A" "xpos S' = xpos ?A" "ypos S' = ypos ?A"
    "wvelbase S' = wvelbase ?A" "wvelsurf S' = wvelsurf ?A"
    by (simp_all add: f int)
  have z: "0 \<le> H \<longrightarrow> bed \<le> zc \<and> zc \<le> bed + H"
    by (simp add: zc_def clip_by_value_def)
  have r: "rhpos S' ! k = (if 0.1 < H then (zc - bed) / H else 1)"
    unfolding zc_def bed_def H_def fields by (rule nth(1))
  have zz: "zpos S' ! k = zc + dt S * sia_blend (sampled_at E S1 (wvelbase S') k)
                                      (sampled_at E S1 (wvelsurf S') k) (rhpos S' ! k)"
    unfolding zc_def bed_def H_def fields by (rule nth(2))
  have xx: "xpos S' ! k = clip_by_value
                         (xpos S1 ! k + dt S * sia_blend (sampled_at E S1 (uvelbase S) k)
                                             (sampled_at E S1 (uvelsurf S) k) (rhpos S' ! k))
                         (hd (x_axis S)) (last (x_axis S))"
    unfolding zc_def bed_def H_def fields by (rule nth(3))
  have yy: "ypos S' ! k = clip_by_value
                         (ypos S1 ! k + dt S * sia_blend (sampled_at E S1 (vvelbase S) k)
                                             (sampled_at E S1 (vvelsurf S) k) (rhpos S' ! k))
                         (hd (y_axis S)) (last (y_axis S))"
    unfolding zc_def bed_def H_def fields by (rule nth(4))
  have xb: "hd (x_axis S) \<le> last (x_axis S) \<longrightarrow>
            hd (x_axis S) \<le> xpos S' ! k \<and> xpos S' ! k \<le> last (x_axis S)"
    unfolding xx by (simp add: clip_by_value_def)
  have yb: "hd (y_axis S) \<le> last (y_axis S) \<longrightarrow>
            hd (y_axis S) \<le> ypos S' ! k \<and> ypos S' ! k \<le> last (y_axis S)"
    unfolding yy by (simp add: clip_by_value_def)
  from z r zz xx yy xb yb show ?thesis by blast
qed

theorem advect_3d_clamps_witness:
  "\<exists>S'. update_particles_v1 (host_ops CPU) (config ''3d'' 10 (1 / 5)) slab = Inr S' \<and>
        tracking_method (config ''3d'' 10 (1 / 5)) = ''3d'' \<and> aligned slab \<and>
        0 < length (xpos S') \<and>
        zpos slab ! 0 = 1060 \<and>
        sampled_at (host_ops CPU) slab (topg slab) 0 = 2001 / 2 \<and>
        sampled_at (host_ops CPU) slab (thk slab) 0 = 50 \<and>
        rhpos S' ! 0 = 1 \<and> zpos S' ! 0 = 2103 / 2 \<and>
        xpos S' ! 0 = 150 \<and> ypos S' ! 0 = 50"
proof -
  obtain S' where ret: "update_particles_v1 (host_ops CPU) (config ''3d'' 10 (1 / 5)) slab = Inr S'"
    using returns_slab by blast
  have mode: "tracking_method (config ''3d'' 10 (1 / 5)) = ''3d''"
    by (simp add: config_sel)
  note f = update_Inr_fields [OF ret]
  have len: "0 < length (xpos S')"
    using aligned_integrated(2) [OF aligned_slab, of "host_ops CPU" "config ''3d'' 10 (1 / 5)"]
    by (simp add: f(1) stage_slab slab_store)
  note inst = advect_3d_clamps [OF ret mode aligned_slab len, unfolded stage_slab f(9,10)]
  from inst have r: "rhpos S' ! 0 = 1"
    by (simp add: sampled_slab slab_store slab_host(4,6,7) clip_by_value_def)
  from inst have z: "zpos S' ! 0 = 2103 / 2"
    by (simp add: r sampled_slab sampled_wvel_slab slab_store slab_host(4,6,7) clip_by_value_def
          sia_blend_def)
  from inst have x: "xpos S' ! 0 = 150"
    by (simp add: r sampled_slab slab_store slab_host(4,6,7) clip_by_value_def sia_blend_def)
  from inst have y: "ypos S' ! 0 = 50"
    by (simp add: r sampled_slab slab_store slab_host(4,6,7) clip_by_value_def sia_blend_def)
  from ret mode aligned_slab len r z x y show ?thesis
    by (auto simp: sampled_slab slab_store)
qed

section \<open>The seeding schedule\<close>

lemma aligned_update:
  assumes "update_particles_v1 E P S = Inr S'" and "aligned S"
  shows "aligned S'" and "length (xpos S') = length (xpos (seeding_stage P S))"
proof -
  note f = update_Inr_fields [OF assms(1)]
  note a = aligned_integrated [OF assms(2), of E P]
  show len: "length (xpos S') = length (xpos (seeding_stage P S))"
    by (simp add: f(1) a(2))
  have "length (englt S') = length (xpos (seeding_stage P S))"
    using assms(2)
    by (simp add: f(7) f(4) length_rhpos_integrated length_store_seeded)
  with a(1) len show "aligned S'"
    using assms(2)
    by (simp add: aligned_def f(1,2,3,4,5,6) length_store_seeded integrated_host)
qed

text \<open>
  C6. The seeding test of line 70 holds exactly when \<open>tlast_seeding\<close> is still minus
  infinity or the time since the last seeding is at least \<open>frequency_seeding\<close>. A
  returning call made while the test fails leaves the number of particles and
  \<open>tlast_seeding\<close> as they were; a returning call made while it holds appends one particle
  per cell of the mask and sets \<open>tlast_seeding\<close> to the current time, also when no cell
  qualifies and the batch is empty.
\<close>

theorem seeding_schedule:
  assumes "update_particles_v1 E P S = Inr S'" and "aligned S"
  shows "(seeding_due P S \<longleftrightarrow>
            tlast_seeding S = None \<or>
            (\<exists>last_t. tlast_seeding S = Some last_t \<and> frequency_seeding P \<le> t_now S - last_t)) \<and>
         (seeding_due P S \<longrightarrow>
            tlast_seeding S' = Some (t_now S) \<and>
            length (xpos S') = length (xpos S) + length (seed_cells S)) \<and>
         (\<not> seeding_due P S \<longrightarrow>
            tlast_seeding S' = tlast_seeding S \<and> length (xpos S') = length (xpos S)) \<and>
         aligned S'"
proof -
  have due: "seeding_due P S \<longleftrightarrow>
            tlast_seeding S = None \<or>
            (\<exists>last_t. tlast_seeding S = Some last_t \<and> frequency_seeding P \<le> t_now S - last_t)"
    by (simp add: seeding_due_def split: option.splits)
  note a = aligned_update [OF assms]
  have t: "tlast_seeding S' = tlast_seeding (seeding_stage P S)"
    by (rule update_Inr_fields(8) [OF assms(1)])
  have fired: "tlast_seeding S' = Some (t_now S) \<and>
               length (xpos S') = length (xpos S) + length (seed_cells S)"
    if "seeding_due P S"
    using that by (simp add: t a(2) seeding_stage_due)
  have idle: "tlast_seeding S' = tlast_seeding S \<and> length (xpos S') = length (xpos S)"
    if "\<not> seeding_due P S"
    using that by (simp add: t a(2) seeding_stage_not_due)
  from due fired idle a(1) show ?thesis by blast
qed

lemma thin_host:
  "ny thin_slab = 3" "nx thin_slab = 3" "t_now thin_slab = 20" "dx thin_slab = 100"
  "x_axis thin_slab = [0, 100, 200]" "y_axis thin_slab = [0, 100, 200]"
  "tlast_seeding thin_slab = Some 15" "xpos thin_slab = [50, 100]" "ypos thin_slab = [50, 50]"
  by (simp_all add: thin_slab_def slab_def)

lemma aligned_thin: "aligned thin_slab"
  by (simp add: aligned_def thin_slab_def slab_def)

lemma due_thin: "seeding_due (config m 5 d) thin_slab"
  by (simp add: seeding_due_def config_sel thin_host)

lemma seed_cells_thin: "seed_cells thin_slab = []"
  by (simp add: seed_cells_def seed_mask_def thin_slab_def)

lemma cells_thin: "deposit_cells (config m 5 d) thin_slab = [(0, 0), (0, 1)]"
  by (simp add: deposit_cells_def particle_indices_def seeding_stage_due [OF due_thin]
        seeding_stage_host seed_cells_thin thin_host cast_int32_def)

lemma returns_thin: "\<exists>S'. update_particles_v1 (host_ops dev) (config m 5 d) thin_slab = Inr S'"
  by (rule update_returns) (simp_all add: thin_host cells_thin in_grid_def)

theorem seeding_schedule_witness:
  "(\<exists>S'. update_particles_v1 (host_ops CPU) (config ''simple'' 10 (1 / 5)) slab = Inr S' \<and>
         aligned slab \<and> \<not> seeding_due (config ''simple'' 10 (1 / 5)) slab \<and>
         tlast_seeding S' = Some 15 \<and> length (xpos S') = 2) \<and>
   (\<exists>S'. update_particles_v1 (host_ops CPU) (config ''simple'' 5 (1 / 5)) thin_slab = Inr S' \<and>
         aligned thin_slab \<and> seeding_due (config ''simple'' 5 (1 / 5)) thin_slab \<and>
         seed_cells thin_slab = [] \<and>
         tlast_seeding S' = Some 20 \<and> length (xpos S') = 2)"
proof -
  obtain S1 where r1: "update_particles_v1 (host_ops CPU) (config ''simple'' 10 (1 / 5)) slab = Inr S1"
    using returns_slab by blast
  obtain S2 where r2: "update_particles_v1 (host_ops CPU) (config ''simple'' 5 (1 / 5)) thin_slab = Inr S2"
    using returns_thin by blast
  from seeding_schedule [OF r1 aligned_slab] not_due_slab
  have a: "tlast_seeding S1 = Some 15 \<and> length (xpos S1) = 2"
    by (simp add: slab_host slab_store)
  from seeding_schedule [OF r2 aligned_thin] due_thin
  have b: "tlast_seeding S2 = Some 20 \<and> length (xpos S2) = 2"
    by (simp add: thin_host seed_cells_thin)
  from r1 r2 a b aligned_slab aligned_thin not_due_slab due_thin seed_cells_thin
  show ?thesis by blast
qed

section \<open>The weight grid\<close>

lemma grid_total_update:
  assumes "j < m" and "i < n"
  shows "grid_total m n (w(j := (w j)(i := w j i + u))) = grid_total m n w + u"
proof -
  let ?d = "\<lambda>a b. if a = j then (if b = i then u else 0) else (0::real)"
  have cell: "(w(j := (w j)(i := w j i + u))) a b = w a b + ?d a b" for a b
    by simp
  have inner: "(\<Sum>b<n. ?d a b) = (if a = j then u else 0)" for a
    using assms(2) by (cases "a = j") simp_all
  have "grid_total m n (w(j := (w j)(i := w j i + u))) = (\<Sum>a<m. \<Sum>b<n. w a b + ?d a b)"
    unfolding grid_total_sum by (intro sum.cong refl cell)
  also have "\<dots> = (\<Sum>a<m. \<Sum>b<n. w a b) + (\<Sum>a<m. \<Sum>b<n. ?d a b)"
    by (simp only: sum.distrib)
  also have "(\<Sum>a<m. \<Sum>b<n. ?d a b) = (\<Sum>a<m. if a = j then u else 0)"
    by (simp only: inner)
  also have "\<dots> = u"
    using assms(1) by simp
  finally have "grid_total m n (w(j := (w j)(i := w j i + u))) = (\<Sum>a<m. \<Sum>b<n. w a b) + u" .
  moreover have "grid_total m n w = (\<Sum>a<m. \<Sum>b<n. w a b)"
    by (rule grid_total_sum)
  ultimately show ?thesis by linarith
qed

lemma scatter_total:
  assumes "tensor_scatter_nd_add dev m n w ups = Inr w'"
  shows "grid_total m n w' =
           grid_total m n w +
           sum_list (map snd (filter
             (\<lambda>(c, u). 0 \<le> fst c \<and> fst c < int m \<and> 0 \<le> snd c \<and> snd c < int n) ups))"
  using assms
proof (induction ups arbitrary: w)
  case Nil
  then show ?case by simp
next
  case (Cons p ups)
  obtain j i u where p: "p = ((j, i), u)" by (metis surj_pair)
  show ?case
  proof (cases "0 \<le> j \<and> j < int m \<and> 0 \<le> i \<and> i < int n")
    case True
    let ?w1 = "w(nat j := (w (nat j))(nat i := w (nat j) (nat i) + u))"
    from Cons.prems True have "tensor_scatter_nd_add dev m n ?w1 ups = Inr w'"
      by (simp add: p)
    from Cons.IH [OF this]
    have "grid_total m n w' = grid_total m n ?w1 +
           sum_list (map snd (filter
             (\<lambda>(c, u). 0 \<le> fst c \<and> fst c < int m \<and> 0 \<le> snd c \<and> snd c < int n) ups))" .
    moreover have "grid_total m n ?w1 = grid_total m n w + u"
      using True by (intro grid_total_update) linarith+
    ultimately show ?thesis using True by (simp add: p)
  next
    case False
    with Cons.prems have "tensor_scatter_nd_add dev m n w ups = Inr w'"
      by (simp add: p split: device.splits)
    from Cons.IH [OF this] False show ?thesis
      by (auto simp: p)
  qed
qed

lemma weight_total:
  assumes "update_particles_v1 E P S = Inr S'" and "aligned S"
  shows "grid_total (ny S) (nx S) (weight_particles S') =
           (\<Sum>k | k < length (wpos S') \<and> rhpos S' ! k = 1 \<and>
                   in_grid S (deposit_cells P S ! k). wpos S' ! k)"
proof -
  let ?n = "length (xpos (seeding_stage P S))"
  have lens: "length (deposit_cells P S) = ?n" "length (rhpos S') = ?n" "length (wpos S') = ?n"
    using assms(2)
    by (simp_all add: update_Inr_fields(4,5) [OF assms(1)] length_rhpos_integrated
          length_store_seeded length_deposit_cells)
  have zero: "grid_total (ny S) (nx S) (\<lambda>j i. 0) = 0"
    by (simp add: grid_total_sum)
  have "grid_total (ny S) (nx S) (weight_particles S') =
          grid_total (ny S) (nx S) (\<lambda>j i. 0) +
          sum_list (map snd (filter
            (\<lambda>(c, u). 0 \<le> fst c \<and> fst c < int (ny S) \<and> 0 \<le> snd c \<and> snd c < int (nx S))
            (zip (deposit_cells P S)
                 (map2 (\<lambda>r w. if r = 1 then w else 0) (rhpos S') (wpos S')))))"
    by (rule scatter_total [OF update_accumulates [OF assms(1)]])
  also have "\<dots> = (\<Sum>k | k < ?n \<and> rhpos S' ! k = 1 \<and>
        (0 \<le> fst (deposit_cells P S ! k) \<and> fst (deposit_cells P S ! k) < int (ny S) \<and>
         0 \<le> snd (deposit_cells P S ! k) \<and> snd (deposit_cells P S ! k) < int (nx S)).
        wpos S' ! k)"
    using scattered_sum [OF lens,
        of "\<lambda>c. 0 \<le> fst c \<and> fst c < int (ny S) \<and> 0 \<le> snd c \<and> snd c < int (nx S)"]
    by (simp add: zero)
  finally show ?thesis by (simp add: lens in_grid_def)
qed

section \<open>Where the weight is deposited\<close>

text \<open>
  C1 (as amended). The cell into which a particle's weight is scattered is the cell that
  encloses its position before the integrator stage, that is, after seeding and before
  the forward-Euler step of the same call: lines 217 and 218 cast the fractional indices
  of lines 88 and 89. On the grid, the weight of a cell is the sum of \<open>wpos\<close> over the
  particles whose relative height after the integrator stage is 1 and whose position
  before it lies in that cell.
\<close>

theorem weight_at_cell_before_step:
  assumes "update_particles_v1 E P S = Inr S'" and "aligned S" and "a < ny S" and "b < nx S"
  shows "weight_particles S' a b =
           (\<Sum>k | k < length (wpos S') \<and> rhpos S' ! k = 1 \<and>
                   cell_of S (xpos (seeding_stage P S) ! k) (ypos (seeding_stage P S) ! k)
                     = (int a, int b). wpos S' ! k)"
proof -
  have len: "length (wpos S') = length (xpos (seeding_stage P S))"
    using assms(2) by (simp add: update_Inr_fields(5) [OF assms(1)] length_store_seeded)
  have "{k. k < length (wpos S') \<and> rhpos S' ! k = 1 \<and> deposit_cells P S ! k = (int a, int b)}
      = {k. k < length (wpos S') \<and> rhpos S' ! k = 1 \<and>
            cell_of S (xpos (seeding_stage P S) ! k) (ypos (seeding_stage P S) ! k)
              = (int a, int b)}"
    using nth_deposit_cells [OF assms(2), of _ P] by (auto simp: len)
  with weight_cell [OF assms] show ?thesis by simp
qed

lemma run_simple:
  assumes "update_particles_v1 (host_ops dev) (config ''simple'' 10 d) slab = Inr S'"
  shows "rhpos S' = [1, 1 / 2]" "wpos S' = [2, 1]" "xpos S' = [150, 775 / 4]"
    "ypos S' = [50, 50]"
  using update_Inr_fields [OF assms]
  by (simp_all add: integrated_simple stage_slab slab_store)

lemma cell_of_slab:
  "cell_of slab 50 50 = (0, 0)" "cell_of slab 100 50 = (0, 1)" "cell_of slab 150 50 = (0, 1)"
  by (simp_all add: cell_of_def slab_host cast_int32_def)

theorem weight_at_cell_before_step_witness:
  "\<exists>S'. update_particles_v1 (host_ops CPU) (config ''simple'' 10 (1 / 5)) slab = Inr S' \<and>
        aligned slab \<and> 0 < ny slab \<and> 0 < nx slab \<and>
        xpos (seeding_stage (config ''simple'' 10 (1 / 5)) slab) = [50, 100] \<and>
        rhpos S' = [1, 1 / 2] \<and> wpos S' = [2, 1] \<and>
        weight_particles S' 0 0 = 2"
proof -
  obtain S' where ret: "update_particles_v1 (host_ops CPU) (config ''simple'' 10 (1 / 5)) slab = Inr S'"
    using returns_slab by blast
  note r = run_simple [OF ret]
  have a: "0 < ny slab" and b: "0 < nx slab" by (simp_all add: slab_host)
  have set: "{k. k < length (wpos S') \<and> rhpos S' ! k = 1 \<and>
                 cell_of slab (xpos (seeding_stage (config ''simple'' 10 (1 / 5)) slab) ! k)
                              (ypos (seeding_stage (config ''simple'' 10 (1 / 5)) slab) ! k)
                   = (int 0, int 0)} = {0}"
    by (auto simp: r stage_slab slab_store cell_of_slab nth_Cons' split: if_splits)
  from weight_at_cell_before_step [OF ret aligned_slab a b]
  have "weight_particles S' 0 0 = 2"
    by (simp only: set) (simp add: r)
  with ret aligned_slab a b r show ?thesis
    by (auto simp: stage_slab slab_store)
qed

text \<open>
  The claim as written fails on the slab in the simple mode: the surface particle of
  weight 2 starts in cell \<open>(0, 0)\<close> and ends the integrator stage at \<open>x = 150\<close> in cell
  \<open>(0, 1)\<close>, yet the weight grid holds its weight in cell \<open>(0, 0)\<close> and nothing in cell
  \<open>(0, 1)\<close>.
\<close>

theorem weight_after_step_counterexample:
  "\<not> isl (update_particles_v1 (host_ops CPU) (config ''simple'' 10 (1 / 5)) slab) \<and>
   rhpos (projr (update_particles_v1 (host_ops CPU) (config ''simple'' 10 (1 / 5)) slab)) ! 0 = 1 \<and>
   wpos (projr (update_particles_v1 (host_ops CPU) (config ''simple'' 10 (1 / 5)) slab)) ! 0 = 2 \<and>
   cell_of slab
     (xpos (projr (update_particles_v1 (host_ops CPU) (config ''simple'' 10 (1 / 5)) slab)) ! 0)
     (ypos (projr (update_particles_v1 (host_ops CPU) (config ''simple'' 10 (1 / 5)) slab)) ! 0)
     = (0, 1) \<and>
   weight_particles
     (projr (update_particles_v1 (host_ops CPU) (config ''simple'' 10 (1 / 5)) slab)) 0 1 = 0 \<and>
   cell_of slab (xpos slab ! 0) (ypos slab ! 0) = (0, 0) \<and>
   weight_particles
     (projr (update_particles_v1 (host_ops CPU) (config ''simple'' 10 (1 / 5)) slab)) 0 0 = 2"
proof -
  obtain S' where ret: "update_particles_v1 (host_ops CPU) (config ''simple'' 10 (1 / 5)) slab = Inr S'"
    using returns_slab by blast
  note r = run_simple [OF ret]
  have a0: "0 < ny slab" and b0: "0 < nx slab" and b1: "1 < nx slab"
    by (simp_all add: slab_host)
  have s0: "{k. k < length (wpos S') \<and> rhpos S' ! k = 1 \<and>
                deposit_cells (config ''simple'' 10 (1 / 5)) slab ! k = (int 0, int 0)} = {0}"
    by (auto simp: r cells_slab nth_Cons' split: if_splits)
  have s1: "{k. k < length (wpos S') \<and> rhpos S' ! k = 1 \<and>
                deposit_cells (config ''simple'' 10 (1 / 5)) slab ! k = (int 0, int 1)} = {}"
    by (auto simp: r cells_slab nth_Cons' split: if_splits)
  have w0: "weight_particles S' 0 0 = 2"
    using weight_cell [OF ret aligned_slab a0 b0] by (simp only: s0) (simp add: r)
  have w1: "weight_particles S' 0 1 = 0"
    using weight_cell [OF ret aligned_slab a0 b1] by (simp only: s1) simp
  from w1 have w1': "weight_particles S' 0 (Suc 0) = 0" by simp
  show ?thesis
    by (simp add: ret r w0 w1' cell_of_slab slab_store)
qed

section \<open>Conservation of the weight\<close>

lemma scatter_error:
  "tensor_scatter_nd_add dev m n w ups = Inl e \<Longrightarrow> e = InvalidArgumentError"
  by (induction dev m n w ups rule: tensor_scatter_nd_add.induct)
     (auto split: if_splits device.splits)

lemma update_error:
  assumes "update_particles_v1 E P S = Inl e" and "x_axis S \<noteq> []" and "y_axis S \<noteq> []"
  shows "e = InvalidArgumentError"
  using assms
  by (auto simp: update_as_stages accumulate_def Let_def split: sum.splits dest: scatter_error)

lemma update_cpu_off_grid:
  assumes "aligned S" and "x_axis S \<noteq> []" and "y_axis S \<noteq> []"
    and "scatter_device E = CPU" and "\<not> list_all (in_grid S) (deposit_cells P S)"
  shows "update_particles_v1 E P S = Inl InvalidArgumentError"
proof -
  have "isl (update_particles_v1 E P S)"
    using assms by (simp add: update_fails_iff)
  then obtain e where "update_particles_v1 E P S = Inl e"
    by (cases "update_particles_v1 E P S") simp_all
  with update_error [OF this assms(2,3)] show ?thesis by simp
qed

text \<open>
  C4 (as amended). The weight grid of a returning call is the scatter-add onto a grid of
  zeros, so nothing of an earlier grid is carried over. Its total over all cells is the
  sum of \<open>wpos\<close> over the particles whose relative height is 1 and whose cell (of the
  position before the integrator stage) lies on the grid. So the total is the sum of
  \<open>wpos\<close> over all particles of relative height 1 when every particle has its cell on the
  grid; a call on the CPU returns only then.
\<close>

theorem weight_total_on_grid:
  assumes "update_particles_v1 E P S = Inr S'" and "aligned S"
  shows "tensor_scatter_nd_add (scatter_device E) (ny S) (nx S) (\<lambda>j i. 0)
           (zip (deposit_cells P S)
                (map2 (\<lambda>r w. if r = 1 then w else 0) (rhpos S') (wpos S')))
           = Inr (weight_particles S') \<and>
         grid_total (ny S) (nx S) (weight_particles S') =
           (\<Sum>k | k < length (wpos S') \<and> rhpos S' ! k = 1 \<and>
                   in_grid S (cell_of S (xpos (seeding_stage P S) ! k)
                                        (ypos (seeding_stage P S) ! k)). wpos S' ! k) \<and>
         ((\<forall>k < length (wpos S').
              in_grid S (cell_of S (xpos (seeding_stage P S) ! k)
                                   (ypos (seeding_stage P S) ! k))) \<longrightarrow>
            grid_total (ny S) (nx S) (weight_particles S') =
              (\<Sum>k | k < length (wpos S') \<and> rhpos S' ! k = 1. wpos S' ! k)) \<and>
         (scatter_device E = CPU \<longrightarrow>
            (\<forall>k < length (wpos S').
               in_grid S (cell_of S (xpos (seeding_stage P S) ! k)
                                    (ypos (seeding_stage P S) ! k))))"
proof -
  let ?c = "\<lambda>k. cell_of S (xpos (seeding_stage P S) ! k) (ypos (seeding_stage P S) ! k)"
  have len: "length (wpos S') = length (xpos (seeding_stage P S))"
    using assms(2) by (simp add: update_Inr_fields(5) [OF assms(1)] length_store_seeded)
  have cell: "deposit_cells P S ! k = ?c k" if "k < length (wpos S')" for k
    using that nth_deposit_cells [OF assms(2), of k P] by (simp add: len)
  have "{k. k < length (wpos S') \<and> rhpos S' ! k = 1 \<and> in_grid S (deposit_cells P S ! k)}
      = {k. k < length (wpos S') \<and> rhpos S' ! k = 1 \<and> in_grid S (?c k)}"
    using cell by auto
  with weight_total [OF assms]
  have total: "grid_total (ny S) (nx S) (weight_particles S') =
           (\<Sum>k | k < length (wpos S') \<and> rhpos S' ! k = 1 \<and> in_grid S (?c k). wpos S' ! k)"
    by simp
  have all: "grid_total (ny S) (nx S) (weight_particles S') =
              (\<Sum>k | k < length (wpos S') \<and> rhpos S' ! k = 1. wpos S' ! k)"
    if "\<forall>k < length (wpos S'). in_grid S (?c k)"
  proof -
    from that
    have "{k. k < length (wpos S') \<and> rhpos S' ! k = 1 \<and> in_grid S (?c k)}
        = {k. k < length (wpos S') \<and> rhpos S' ! k = 1}"
      by auto
    with total show ?thesis by simp
  qed
  have cpu: "\<forall>k < length (wpos S'). in_grid S (?c k)" if "scatter_device E = CPU"
  proof (intro allI impI)
    fix k assume k: "k < length (wpos S')"
    have "list_all (in_grid S) (deposit_cells P S)"
      using assms that by (rule update_cpu_in_grid)
    moreover have "k < length (deposit_cells P S)"
      using k assms(2) by (simp add: len length_deposit_cells)
    ultimately have "in_grid S (deposit_cells P S ! k)"
      by (simp add: list_all_length)
    with cell [OF k] show "in_grid S (?c k)" by simp
  qed
  from update_accumulates [OF assms(1)] total all cpu show ?thesis by blast
qed

theorem weight_total_on_grid_witness:
  "\<exists>S'. update_particles_v1 (host_ops CPU) (config ''simple'' 10 (1 / 5)) slab = Inr S' \<and>
        aligned slab \<and> rhpos S' = [1, 1 / 2] \<and> wpos S' = [2, 1] \<and>
        in_grid slab (cell_of slab 50 50) \<and> in_grid slab (cell_of slab 100 50) \<and>
        grid_total (ny slab) (nx slab) (weight_particles S') = 2"
proof -
  obtain S' where ret: "update_particles_v1 (host_ops CPU) (config ''simple'' 10 (1 / 5)) slab = Inr S'"
    using returns_slab by blast
  note r = run_simple [OF ret]
  have g: "in_grid slab (cell_of slab 50 50)" "in_grid slab (cell_of slab 100 50)"
    by (simp_all add: cell_of_slab in_grid_def slab_host)
  have on: "\<forall>k < length (wpos S').
              in_grid slab (cell_of slab (xpos (seeding_stage (config ''simple'' 10 (1 / 5)) slab) ! k)
                                         (ypos (seeding_stage (config ''simple'' 10 (1 / 5)) slab) ! k))"
    using g by (auto simp: r stage_slab slab_store nth_Cons' split: if_splits)
  have set: "{k. k < length (wpos S') \<and> rhpos S' ! k = 1} = {0}"
    by (auto simp: r nth_Cons' split: if_splits)
  from weight_total_on_grid [OF ret aligned_slab] on
  have "grid_total (ny slab) (nx slab) (weight_particles S') =
          (\<Sum>k | k < length (wpos S') \<and> rhpos S' ! k = 1. wpos S' ! k)"
    by blast
  then have "grid_total (ny slab) (nx slab) (weight_particles S') = 2"
    by (simp only: set) (simp add: r)
  with ret aligned_slab r g show ?thesis by blast
qed

lemma drifted_host:
  "ny drifted_slab = 3" "nx drifted_slab = 3" "dt drifted_slab = 1" "dx drifted_slab = 100"
  "x_axis drifted_slab = [0, 100, 200]" "y_axis drifted_slab = [0, 100, 200]"
  "thk drifted_slab = (\<lambda>j i. 50)" "smb drifted_slab = (\<lambda>j i. 0)"
  "t_now drifted_slab = 20" "tlast_seeding drifted_slab = Some 15"
  by (simp_all add: drifted_slab_def slab_def)

lemma drifted_store:
  "xpos drifted_slab = [- 150, 100]" "ypos drifted_slab = [50, 50]"
  "rhpos drifted_slab = [1, 1 / 2]" "wpos drifted_slab = [2, 1]"
  by (simp_all add: drifted_slab_def slab_def)

lemma aligned_drifted: "aligned drifted_slab"
  by (simp add: aligned_def drifted_slab_def slab_def)

lemma stage_drifted: "seeding_stage (config m 10 d) drifted_slab = drifted_slab"
  by (simp add: seeding_stage_def seeding_due_def config_sel drifted_host)

lemma cells_drifted: "deposit_cells (config m 10 d) drifted_slab = [(0, - 1), (0, 1)]"
  by (simp add: deposit_cells_def stage_drifted particle_indices_def drifted_host
        drifted_store cast_int32_def)

lemma rhpos_drifted:
  "rhpos (integrated (host_ops dev) (config ''simple'' 10 d) drifted_slab) = [1, 1 / 2]"
  by (simp add: integrated_def stage_drifted advect_def config_sel advect_simple_def
        sample_fields_def sample_def host_ops_sel particle_indices_def drifted_host
        drifted_store bilinear_const map3_def clip_by_value_def)

text \<open>
  The claim as written fails when a particle has left the grid, which the simple mode
  does not prevent: with the surface particle of weight 2 at \<open>x = -150\<close> the call fails
  on the CPU and produces no grid at all, and on the GPU it returns a grid of total 0
  although the particles of relative height 1 carry the weight 2.
\<close>

theorem weight_total_counterexample:
  "update_particles_v1 (host_ops CPU) (config ''simple'' 10 (1 / 5)) drifted_slab
     = Inl InvalidArgumentError \<and>
   \<not> isl (update_particles_v1 (host_ops GPU) (config ''simple'' 10 (1 / 5)) drifted_slab) \<and>
   rhpos (projr (update_particles_v1 (host_ops GPU) (config ''simple'' 10 (1 / 5)) drifted_slab))
     = [1, 1 / 2] \<and>
   wpos (projr (update_particles_v1 (host_ops GPU) (config ''simple'' 10 (1 / 5)) drifted_slab))
     = [2, 1] \<and>
   grid_total 3 3 (weight_particles
     (projr (update_particles_v1 (host_ops GPU) (config ''simple'' 10 (1 / 5)) drifted_slab))) = 0"
proof -
  have off: "\<not> list_all (in_grid drifted_slab) (deposit_cells (config ''simple'' 10 (1 / 5)) drifted_slab)"
    by (simp add: cells_drifted in_grid_def)
  have cpu: "update_particles_v1 (host_ops CPU) (config ''simple'' 10 (1 / 5)) drifted_slab
               = Inl InvalidArgumentError"
    by (rule update_cpu_off_grid [OF aligned_drifted _ _ _ off])
       (simp_all add: drifted_host host_ops_sel)
  have "\<exists>S'. update_particles_v1 (host_ops GPU) (config ''simple'' 10 (1 / 5)) drifted_slab = Inr S'"
    by (rule update_returns) (simp_all add: drifted_host host_ops_sel)
  then obtain S' where
    ret: "update_particles_v1 (host_ops GPU) (config ''simple'' 10 (1 / 5)) drifted_slab = Inr S'"
    by blast
  note f = update_Inr_fields [OF ret]
  have r: "rhpos S' = [1, 1 / 2]" "wpos S' = [2, 1]"
    by (simp_all add: f rhpos_drifted stage_drifted drifted_store)
  have set: "{k. k < length (wpos S') \<and> rhpos S' ! k = 1 \<and>
                 in_grid drifted_slab (deposit_cells (config ''simple'' 10 (1 / 5)) drifted_slab ! k)}
             = {}"
    by (auto simp: r cells_drifted in_grid_def nth_Cons' split: if_splits)
  have "grid_total (ny drifted_slab) (nx drifted_slab) (weight_particles S') = 0"
    using weight_total [OF ret aligned_drifted] by (simp only: set) simp
  then have "grid_total 3 3 (weight_particles S') = 0"
    by (simp add: drifted_host)
  with cpu ret r show ?thesis by simp
qed

end
